theory Spec2Isabelle
  imports Complex_Main "HOL-Library.Char_ord" "HOL-Library.List_Lexorder" "HOL-Library.Multiset"
begin

section \<open>AtomSim: bonding, identification and energy engine\<close>

text \<open>
  A shallow embedding of the chemistry core of AtomSim.  The sources are
  \<^verbatim>\<open>autonomous-chemistry.engine.ts\<close> (class \<^verbatim>\<open>AutonomousChemistryEngine\<close>) and
  \<^verbatim>\<open>simulation.component.ts\<close> (class \<^verbatim>\<open>SimulationComponent\<close>).  The repository holds a
  second \<^verbatim>\<open>SimulationComponent\<close> class (the one with \<^verbatim>\<open>addSystemEnergy\<close> and
  \<^verbatim>\<open>createManualBond\<close>); what is taken from it carries the suffix \<open>2\<close>.

  JavaScript numbers that hold identifiers, proton numbers and counts are \<open>nat\<close>;
  numbers that hold energies, electronegativities and masses are \<open>real\<close>, so arithmetic
  is exact (IEEE rounding, \<^verbatim>\<open>NaN\<close> and overflow are not modelled).  Rendering and
  rigid-body integration are outside the model: of a physical body only the mass and the
  velocity are kept, because \<^verbatim>\<open>calculateSystemEnergy\<close> reads them.
\<close>

subsection \<open>Data model\<close>

record ChemicalElement =
  atomicNumber :: nat
  symbol :: string
  name :: string
  valenceElectrons :: nat
  maxBonds :: nat
  electronegativity :: real
  atomicRadius :: real
  ionizationEnergy :: real
  electronAffinity :: real
  preferredOxidationStates :: "int list"

record Body =
  mass :: real
  vx :: real
  vy :: real
  vz :: real

text \<open>Field \<^verbatim>\<open>id\<close> of the source is \<open>atomId\<close> here (\<open>id\<close> is the identity function of HOL).\<close>

record Atom =
  atomId :: nat
  protons :: nat
  neutrons :: nat
  electronsCount :: nat
  physicalBody :: Body
  isMoleculeMember :: bool

datatype BondType = covalent | ionic | metallic | hydrogen

record BondingPair =
  pairAtomA :: Atom
  pairAtomB :: Atom
  bondOrder :: nat
  bondType :: BondType
  bondEnergy :: real
  bondLength :: real
  polarity :: real

text \<open>What a JavaScript call can throw in the modelled code.\<close>

datatype error = TypeError

text \<open>A JavaScript number that may be \<^verbatim>\<open>Infinity\<close>.\<close>

datatype number = Finite real | Infinity

fun reaches :: "real \<Rightarrow> number \<Rightarrow> bool" where
  "reaches x (Finite y) = (x \<ge> y)"
| "reaches x Infinity = False"

subsection \<open>The element catalog\<close>

definition mkElement ::
  "nat \<Rightarrow> string \<Rightarrow> string \<Rightarrow> nat \<Rightarrow> nat \<Rightarrow> real \<Rightarrow> real \<Rightarrow> real \<Rightarrow> real \<Rightarrow> int list
   \<Rightarrow> ChemicalElement" where
  "mkElement z s n v m en r ie ea ox =
     \<lparr>atomicNumber = z, symbol = s, name = n, valenceElectrons = v, maxBonds = m,
      electronegativity = en, atomicRadius = r, ionizationEnergy = ie,
      electronAffinity = ea, preferredOxidationStates = ox\<rparr>"

definition CHEMICAL_ELEMENTS_table :: "(nat \<times> ChemicalElement) list" where
  "CHEMICAL_ELEMENTS_table =
    [(1, mkElement 1 ''H'' ''Hydrogen'' 1 1 2.20 0.37 13.6 0.75 [-1, 1]),
     (2, mkElement 2 ''He'' ''Helium'' 2 0 0.0 0.32 24.6 0.0 [0]),
     (3, mkElement 3 ''Li'' ''Lithium'' 1 1 0.98 1.52 5.4 0.62 [1]),
     (4, mkElement 4 ''Be'' ''Beryllium'' 2 2 1.57 1.12 9.3 0.0 [2]),
     (5, mkElement 5 ''B'' ''Boron'' 3 3 2.04 0.88 8.3 0.28 [3]),
     (6, mkElement 6 ''C'' ''Carbon'' 4 4 2.55 0.77 11.3 1.26 [-4, -3, -2, -1, 0, 1, 2, 3, 4]),
     (7, mkElement 7 ''N'' ''Nitrogen'' 5 3 3.04 0.75 14.5 0.07 [-3, -2, -1, 0, 1, 2, 3, 4, 5]),
     (8, mkElement 8 ''O'' ''Oxygen'' 6 2 3.44 0.73 13.6 1.46 [-2, -1, 0, 1, 2]),
     (9, mkElement 9 ''F'' ''Fluorine'' 7 1 3.98 0.71 17.4 3.40 [-1]),
     (10, mkElement 10 ''Ne'' ''Neon'' 8 0 0.0 0.69 21.6 0.0 [0]),
     (11, mkElement 11 ''Na'' ''Sodium'' 1 1 0.93 1.86 5.1 0.55 [1]),
     (12, mkElement 12 ''Mg'' ''Magnesium'' 2 2 1.31 1.60 7.6 0.0 [2]),
     (13, mkElement 13 ''Al'' ''Aluminum'' 3 3 1.61 1.43 6.0 0.43 [3]),
     (14, mkElement 14 ''Si'' ''Silicon'' 4 4 1.90 1.18 8.2 1.39 [-4, 2, 4]),
     (15, mkElement 15 ''P'' ''Phosphorus'' 5 5 2.19 1.10 10.5 0.75 [-3, 3, 5]),
     (16, mkElement 16 ''S'' ''Sulfur'' 6 6 2.58 1.04 10.4 2.08 [-2, 2, 4, 6]),
     (17, mkElement 17 ''Cl'' ''Chlorine'' 7 7 3.16 0.99 13.0 3.61 [-1, 1, 3, 5, 7]),
     (18, mkElement 18 ''Ar'' ''Argon'' 8 0 0.0 0.97 15.8 0.0 [0])]"

definition CHEMICAL_ELEMENTS :: "nat \<rightharpoonup> ChemicalElement" where
  "CHEMICAL_ELEMENTS = map_of CHEMICAL_ELEMENTS_table"

subsection \<open>Bond eligibility (engine)\<close>

text \<open>\<^verbatim>\<open>getCurrentBondCount\<close> is a placeholder in the source: it returns 0 for every atom.\<close>

definition getCurrentBondCount :: "Atom \<Rightarrow> nat" where
  "getCurrentBondCount atom = 0"

definition calculateActivationEnergy :: "Atom \<Rightarrow> Atom \<Rightarrow> number" where
  "calculateActivationEnergy atomA atomB =
     (case CHEMICAL_ELEMENTS (protons atomA) of
        None \<Rightarrow> Infinity
      | Some elementA \<Rightarrow>
        (case CHEMICAL_ELEMENTS (protons atomB) of
           None \<Rightarrow> Infinity
         | Some elementB \<Rightarrow>
           (let electronegativityDiff = \<bar>electronegativity elementA - electronegativity elementB\<bar>;
                avgIonizationEnergy = (ionizationEnergy elementA + ionizationEnergy elementB) / 2;
                activationEnergy = avgIonizationEnergy * (1 - electronegativityDiff / 4) * 0.1
            in Finite (max activationEnergy 1))))"

definition canFormBond :: "Atom \<Rightarrow> Atom \<Rightarrow> real \<Rightarrow> bool" where
  "canFormBond atomA atomB systemEnergy =
     (case CHEMICAL_ELEMENTS (protons atomA) of
        None \<Rightarrow> False
      | Some elementA \<Rightarrow>
        (case CHEMICAL_ELEMENTS (protons atomB) of
           None \<Rightarrow> False
         | Some elementB \<Rightarrow>
           if maxBonds elementA = 0 \<or> maxBonds elementB = 0 then False
           else
             (let bondsA = getCurrentBondCount atomA;
                  bondsB = getCurrentBondCount atomB
              in if bondsA \<ge> maxBonds elementA \<or> bondsB \<ge> maxBonds elementB then False
                 else reaches systemEnergy (calculateActivationEnergy atomA atomB))))"

text \<open>
  The activation energy in the words of the specification: the average of the two
  ionization energies, times one minus a quarter of the absolute electronegativity
  difference, times 0.1, floored at 1.
\<close>

definition activationEnergy_spec :: "ChemicalElement \<Rightarrow> ChemicalElement \<Rightarrow> real" where
  "activationEnergy_spec ea eb =
     max (((ionizationEnergy ea + ionizationEnergy eb) / 2)
            * (1 - \<bar>electronegativity ea - electronegativity eb\<bar> / 4) * 0.1) 1"

subsection \<open>Geometry (engine)\<close>

definition centralScore :: "ChemicalElement \<Rightarrow> real" where
  "centralScore e = real (maxBonds e) - electronegativity e"

definition betterCentral :: "Atom \<Rightarrow> Atom \<Rightarrow> Atom" where
  "betterCentral best current =
     (case CHEMICAL_ELEMENTS (protons current) of
        None \<Rightarrow> best
      | Some currentElement \<Rightarrow>
        (case CHEMICAL_ELEMENTS (protons best) of
           None \<Rightarrow> best
         | Some bestElement \<Rightarrow>
           if centralScore currentElement > centralScore bestElement then current else best))"

text \<open>\<^verbatim>\<open>atoms.reduce(f)\<close> without an initial value throws on an empty array.\<close>

fun findOptimalCentralAtom :: "Atom list \<Rightarrow> error + Atom" where
  "findOptimalCentralAtom [] = Inl TypeError"
| "findOptimalCentralAtom (a # as) = Inr (foldl betterCentral a as)"

definition lonePairsOf :: "ChemicalElement \<Rightarrow> nat \<Rightarrow> real" where
  "lonePairsOf element bondCount =
     max 0 ((real (valenceElectrons element) - real bondCount * 2) / 2)"

definition vseprSwitch :: "real \<Rightarrow> real \<Rightarrow> string" where
  "vseprSwitch totalElectronPairs lonePairs =
     (if totalElectronPairs = 2 then ''linear''
      else if totalElectronPairs = 3 then
        (if lonePairs = 0 then ''trigonal_planar'' else ''bent'')
      else if totalElectronPairs = 4 then
        (if lonePairs = 0 then ''tetrahedral''
         else if lonePairs = 1 then ''trigonal_pyramidal''
         else if lonePairs = 2 then ''bent''
         else ''complex'')
      else if totalElectronPairs = 5 then
        (if lonePairs = 0 then ''trigonal_bipyramidal''
         else if lonePairs = 1 then ''seesaw''
         else if lonePairs = 2 then ''T_shaped''
         else if lonePairs = 3 then ''linear''
         else ''complex'')
      else if totalElectronPairs = 6 then
        (if lonePairs = 0 then ''octahedral''
         else if lonePairs = 1 then ''square_pyramidal''
         else if lonePairs = 2 then ''square_planar''
         else ''complex'')
      else ''complex'')"

definition centralBondsOf :: "BondingPair list \<Rightarrow> Atom \<Rightarrow> BondingPair list" where
  "centralBondsOf bonds centralAtom =
     filter (\<lambda>b. atomId (pairAtomA b) = atomId centralAtom
                \<or> atomId (pairAtomB b) = atomId centralAtom) bonds"

text \<open>
  \<^verbatim>\<open>if (!centralAtom) centralAtom = this.findOptimalCentralAtom(atoms)\<close>: a missing
  argument is \<open>None\<close>.
\<close>

definition resolveCentral :: "Atom list \<Rightarrow> Atom option \<Rightarrow> error + Atom" where
  "resolveCentral atoms centralAtom =
     (case centralAtom of None \<Rightarrow> findOptimalCentralAtom atoms | Some c \<Rightarrow> Inr c)"

definition determineGeometry ::
  "Atom list \<Rightarrow> BondingPair list \<Rightarrow> Atom option \<Rightarrow> error + string" where
  "determineGeometry atoms bonds centralAtom =
     (if length atoms = 1 then Inr ''atomic''
      else if length atoms = 2 then Inr ''linear''
      else
        (case resolveCentral atoms centralAtom of
           Inl e \<Rightarrow> Inl e
         | Inr c \<Rightarrow>
           (let bondCount = length (centralBondsOf bonds c)
            in case CHEMICAL_ELEMENTS (protons c) of
                 None \<Rightarrow> Inr ''unknown''
               | Some element \<Rightarrow>
                 (let lonePairs = lonePairsOf element bondCount;
                      totalElectronPairs = real bondCount + lonePairs
                  in Inr (vseprSwitch totalElectronPairs lonePairs)))))"

text \<open>
  The VSEPR table in the words of the specification: a list of entries
  (total pairs, lone pairs, tag); two pairs are linear whatever the lone pairs, three
  pairs are trigonal planar without a lone pair and bent otherwise; no entry means
  \<open>complex\<close>.
\<close>

definition vsepr_entries :: "(real \<times> real \<times> string) list" where
  "vsepr_entries =
     [(4, 0, ''tetrahedral''), (4, 1, ''trigonal_pyramidal''), (4, 2, ''bent''),
      (5, 0, ''trigonal_bipyramidal''), (5, 1, ''seesaw''), (5, 2, ''T_shaped''),
      (5, 3, ''linear''),
      (6, 0, ''octahedral''), (6, 1, ''square_pyramidal''), (6, 2, ''square_planar'')]"

definition vsepr_table :: "real \<Rightarrow> real \<Rightarrow> string" where
  "vsepr_table totalPairs lonePairs =
     (if totalPairs = 2 then ''linear''
      else if totalPairs = 3 then (if lonePairs = 0 then ''trigonal_planar'' else ''bent'')
      else (case find (\<lambda>(t, l, g). t = totalPairs \<and> l = lonePairs) vsepr_entries of
              None \<Rightarrow> ''complex''
            | Some (t, l, g) \<Rightarrow> g))"

subsection \<open>Bond properties (engine)\<close>

definition calculateBondOrder :: "ChemicalElement \<Rightarrow> ChemicalElement \<Rightarrow> nat" where
  "calculateBondOrder elementA elementB =
     (let availableElectronsA = min (valenceElectrons elementA) (maxBonds elementA);
          availableElectronsB = min (valenceElectrons elementB) (maxBonds elementB)
      in min (min availableElectronsA availableElectronsB) 3)"

definition calculateBondEnergy ::
  "ChemicalElement \<Rightarrow> ChemicalElement \<Rightarrow> nat \<Rightarrow> BondType \<Rightarrow> real" where
  "calculateBondEnergy elementA elementB bondOrder' bondType' =
     (let baseEnergy = (electronegativity elementA + electronegativity elementB) * 50;
          orderMultiplier = real bondOrder' * 1.5;
          typeMultiplier = (if bondType' = ionic then 1.5
                            else if bondType' = hydrogen then 0.3 else 1.0)
      in baseEnergy * orderMultiplier * typeMultiplier)"

definition calculateBondLength :: "Atom \<Rightarrow> Atom \<Rightarrow> real" where
  "calculateBondLength atomA atomB =
     (case CHEMICAL_ELEMENTS (protons atomA) of
        None \<Rightarrow> 2.0
      | Some elementA \<Rightarrow>
        (case CHEMICAL_ELEMENTS (protons atomB) of
           None \<Rightarrow> 2.0
         | Some elementB \<Rightarrow> (atomicRadius elementA + atomicRadius elementB) * 1.2))"

definition calculateBondProperties :: "Atom \<Rightarrow> Atom \<Rightarrow> BondingPair option" where
  "calculateBondProperties atomA atomB =
     (case CHEMICAL_ELEMENTS (protons atomA) of
        None \<Rightarrow> None
      | Some elementA \<Rightarrow>
        (case CHEMICAL_ELEMENTS (protons atomB) of
           None \<Rightarrow> None
         | Some elementB \<Rightarrow>
           (let electronegativityDiff = \<bar>electronegativity elementA - electronegativity elementB\<bar>;
                bondType0 = (if electronegativityDiff > 1.7 then ionic
                             else if electronegativityDiff > 0.4 then covalent
                             else covalent);
                bondType1 = (if (protons atomA = 1 \<and> protons atomB \<in> set [7, 8, 9])
                                \<or> (protons atomB = 1 \<and> protons atomA \<in> set [7, 8, 9])
                             then hydrogen else bondType0);
                bondOrder' = calculateBondOrder elementA elementB;
                bondEnergy' = calculateBondEnergy elementA elementB bondOrder' bondType1;
                bondLength' = calculateBondLength atomA atomB
            in Some \<lparr>pairAtomA = atomA, pairAtomB = atomB, bondOrder = bondOrder',
                      bondType = bondType1, bondEnergy = bondEnergy',
                      bondLength = bondLength', polarity = electronegativityDiff\<rparr>)))"

subsection \<open>Strings\<close>

text \<open>
  JavaScript strings are modelled as \<open>string\<close>; the subscript digits, the only
  characters outside ASCII, are written as their three UTF-8 bytes.  The order of
  \<open>string\<close> (lexicographic, characters by code) is the order in which JavaScript
  compares the decimal strings that occur here.
\<close>

function show_nat :: "nat \<Rightarrow> string" where
  "show_nat n = (if n < 10 then [''0123456789'' ! n]
                 else show_nat (n div 10) @ [''0123456789'' ! (n mod 10)])"
  by pat_completeness auto
termination
  by (relation "measure id") auto

declare show_nat.simps [simp del]

fun join :: "string \<Rightarrow> string list \<Rightarrow> string" where
  "join sep [] = []"
| "join sep [x] = x"
| "join sep (x # y # ys) = x @ sep @ join sep (y # ys)"

definition subscriptDigit :: "char \<Rightarrow> string" where
  "subscriptDigit d =
     (case map_of
        [(CHR ''0'', [CHR 0xE2, CHR 0x82, CHR 0x80]), (CHR ''1'', [CHR 0xE2, CHR 0x82, CHR 0x81]),
         (CHR ''2'', [CHR 0xE2, CHR 0x82, CHR 0x82]), (CHR ''3'', [CHR 0xE2, CHR 0x82, CHR 0x83]),
         (CHR ''4'', [CHR 0xE2, CHR 0x82, CHR 0x84]), (CHR ''5'', [CHR 0xE2, CHR 0x82, CHR 0x85]),
         (CHR ''6'', [CHR 0xE2, CHR 0x82, CHR 0x86]), (CHR ''7'', [CHR 0xE2, CHR 0x82, CHR 0x87]),
         (CHR ''8'', [CHR 0xE2, CHR 0x82, CHR 0x88]), (CHR ''9'', [CHR 0xE2, CHR 0x82, CHR 0x89])] d of
        None \<Rightarrow> [] | Some u \<Rightarrow> u)"

definition subscriptOf :: "nat \<Rightarrow> string" where
  "subscriptOf cnt = concat (map subscriptDigit (show_nat cnt))"

definition toLowerCase :: "string \<Rightarrow> string" where
  "toLowerCase str =
     map (\<lambda>c. case map_of (zip ''ABCDEFGHIJKLMNOPQRSTUVWXYZ'' ''abcdefghijklmnopqrstuvwxyz'') c of
                None \<Rightarrow> c | Some l \<Rightarrow> l) str"

text \<open>
  A \<^verbatim>\<open>Map<number, number>\<close> of element counts, in insertion order:
  \<^verbatim>\<open>counts.set(p, (counts.get(p) || 0) + 1)\<close>.
\<close>

fun bump :: "(nat \<times> nat) list \<Rightarrow> nat \<Rightarrow> (nat \<times> nat) list" where
  "bump [] p = [(p, 1)]"
| "bump ((q, c) # m) p = (if q = p then (q, c + 1) # m else (q, c) # bump m p)"

definition countElements :: "Atom list \<Rightarrow> (nat \<times> nat) list" where
  "countElements as = foldl (\<lambda>m a. bump m (protons a)) [] as"

definition countOf :: "(nat \<times> nat) list \<Rightarrow> nat \<Rightarrow> nat" where
  "countOf m p = (case map_of m p of None \<Rightarrow> 0 | Some c \<Rightarrow> c)"

subsection \<open>Systematic names and bonding structure (engine)\<close>

definition multiplicativePrefix :: "nat \<Rightarrow> string" where
  "multiplicativePrefix cnt =
     (if cnt > 1
      then (if cnt < 11
            then ['''', ''mono'', ''di'', ''tri'', ''tetra'', ''penta'', ''hexa'', ''hepta'',
                  ''octa'', ''nona'', ''deca''] ! cnt
            else show_nat cnt @ ''-'')
      else '''')"

definition generateSystematicName :: "Atom list \<Rightarrow> string" where
  "generateSystematicName as =
     (let composition = countElements as;
          known = concat (map (\<lambda>(p, cnt). case CHEMICAL_ELEMENTS p of
                                   None \<Rightarrow> [] | Some element \<Rightarrow> [(element, cnt)]) composition);
          sortedElements = sort_key (\<lambda>(element, cnt). electronegativity element) known;
          parts = map (\<lambda>(element, cnt).
                     multiplicativePrefix cnt @ toLowerCase (name element)) sortedElements;
          formulaParts = map (\<lambda>(element, cnt).
                     symbol element @ (if cnt > 1 then subscriptOf cnt else ''''))
                   sortedElements
      in join '' '' parts @ '' ('' @ concat formulaParts @ '')'')"

record BondingStructure =
  structBonds :: "BondingPair list"
  structCentralAtom :: "Atom option"
  structGeometry :: string
  structStability :: real

fun pairsOf :: "'a list \<Rightarrow> ('a \<times> 'a) list" where
  "pairsOf [] = []"
| "pairsOf (x # xs) = map (Pair x) xs @ pairsOf xs"

definition possibleBondsOf :: "Atom list \<Rightarrow> BondingPair list" where
  "possibleBondsOf as =
     concat (map (\<lambda>(x, y). case calculateBondProperties x y of
                              None \<Rightarrow> [] | Some bondPair \<Rightarrow> [bondPair]) (pairsOf as))"

text \<open>
  The selection loop: \<open>counts\<close> is \<^verbatim>\<open>atomBondCounts\<close> read with
  \<^verbatim>\<open>atomBondCounts.get(id) || 0\<close>.
\<close>

definition selectBond ::
  "BondingPair list \<times> (nat \<Rightarrow> nat) \<Rightarrow> BondingPair \<Rightarrow> BondingPair list \<times> (nat \<Rightarrow> nat)" where
  "selectBond acc bond =
     (case CHEMICAL_ELEMENTS (protons (pairAtomA bond)) of
        None \<Rightarrow> acc
      | Some elementA \<Rightarrow>
        (case CHEMICAL_ELEMENTS (protons (pairAtomB bond)) of
           None \<Rightarrow> acc
         | Some elementB \<Rightarrow>
           (let counts = snd acc;
                currentBondsA = counts (atomId (pairAtomA bond));
                currentBondsB = counts (atomId (pairAtomB bond))
            in if currentBondsA < maxBonds elementA \<and> currentBondsB < maxBonds elementB
               then (fst acc @ [bond],
                     counts(atomId (pairAtomA bond) := currentBondsA + bondOrder bond,
                            atomId (pairAtomB bond) := currentBondsB + bondOrder bond))
               else acc)))"

definition calculateMolecularStability :: "Atom list \<Rightarrow> BondingPair list \<Rightarrow> real" where
  "calculateMolecularStability as bs =
     foldl (\<lambda>sum bond. sum + bondEnergy bond) 0 bs / real (length as)"

definition calculateOptimalBondingStructure :: "Atom list \<Rightarrow> error + BondingStructure" where
  "calculateOptimalBondingStructure as =
     (if length as < 2
      then Inr \<lparr>structBonds = [], structCentralAtom = None, structGeometry = ''atomic'',
                structStability = 0\<rparr>
      else
        (case findOptimalCentralAtom as of
           Inl e \<Rightarrow> Inl e
         | Inr centralAtom \<Rightarrow>
           (let possibleBonds = sort_key (\<lambda>b. - bondEnergy b) (possibleBondsOf as);
                selected = fst (foldl selectBond ([], (\<lambda>i. 0)) possibleBonds)
            in case determineGeometry as selected (Some centralAtom) of
                 Inl e \<Rightarrow> Inl e
               | Inr geometry \<Rightarrow>
                 Inr \<lparr>structBonds = selected, structCentralAtom = Some centralAtom,
                      structGeometry = geometry,
                      structStability = calculateMolecularStability as selected\<rparr>)))"

text \<open>
  Of \<^verbatim>\<open>calculateMolecularPositions\<close> the model keeps the keys of the returned map: the
  identifiers of the atoms that receive a position.  The tetrahedral and the trigonal
  pyramidal templates have four places; every other arrangement places all atoms.
\<close>

definition positionedAtoms :: "Atom list \<Rightarrow> string \<Rightarrow> Atom option \<Rightarrow> error + nat list" where
  "positionedAtoms as geometry centralAtom =
     (if length as = 1 then Inr [atomId (as ! 0)]
      else if length as = 2 then Inr [atomId (as ! 0), atomId (as ! 1)]
      else
        (case resolveCentral as centralAtom of
           Inl e \<Rightarrow> Inl e
         | Inr c \<Rightarrow>
           (let otherAtoms = filter (\<lambda>a. atomId a \<noteq> atomId c) as
            in if geometry = ''tetrahedral'' \<or> geometry = ''trigonal_pyramidal''
               then Inr (atomId c # map atomId (take 4 otherAtoms))
               else Inr (atomId c # map atomId otherAtoms))))"

section \<open>The simulation component\<close>

subsection \<open>State\<close>

text \<open>
  \<^verbatim>\<open>Atom\<close> objects are shared by reference between \<^verbatim>\<open>this.atoms\<close>, the bonds and the
  molecules, and are mutated in place (\<^verbatim>\<open>isMoleculeMember\<close>, the body's velocity).  The
  model keeps them in a store \<open>heap\<close> indexed by their identifier (identifiers are handed
  out once, by \<^verbatim>\<open>nextId++\<close>, and never change); a reference to an atom is its identifier.
  Field \<^verbatim>\<open>id\<close> of a bond is \<open>bondId\<close>, fields \<^verbatim>\<open>id\<close>, \<^verbatim>\<open>name\<close>, \<^verbatim>\<open>atoms\<close> and
  \<^verbatim>\<open>physicalBody\<close> of a molecule are \<open>molId\<close>, \<open>molName\<close>, \<open>molAtoms\<close> and \<open>molBody\<close>.
\<close>

record Bond =
  bondId :: string
  atomA :: nat
  atomB :: nat

record Molecule =
  molId :: string
  molName :: string
  molAtoms :: "nat list"
  molBody :: Body

text \<open>
  \<^verbatim>\<open>setTimeout(f, d)\<close> appends the pair of the delay \<open>d\<close> (in milliseconds) and the
  callback \<open>f\<close> to the list \<open>pending\<close> of the state.  The callbacks scheduled by the
  functions modelled here are the values of \<open>Deferred\<close>, each with the values its closure
  has captured:
  \<^verbatim>\<open>() => this.identifyMolecules()\<close> (\<^verbatim>\<open>attemptMultiAtomCombinations\<close>),
  \<^verbatim>\<open>() => this.createOptimalMolecularStructure(allAtoms, systemEnergy)\<close>
  (\<^verbatim>\<open>addAtomToMolecule\<close>), and the outer and the inner callback of
  \<^verbatim>\<open>createOptimalMolecularStructure\<close>.
\<close>

datatype Deferred =
    IdentifyMolecules
  | CreateStructure "nat list" real
  | StructureBonds "nat list"
  | FinishStructure

record State =
  heap :: "nat \<Rightarrow> Atom"
  atoms :: "nat list"
  bonds :: "Bond list"
  molecules :: "Molecule list"
  moleculeNames :: "string list"
  discoveredMolecules :: "string list"
  transientHeatEnergy :: real
  heatIntensity :: real
  pulseEnergyBoost :: real
  reactionInProgress :: bool
  lastBondCheck :: real
  pending :: "(real \<times> Deferred) list"

definition bondCheckInterval :: real where
  "bondCheckInterval = 100"

subsection \<open>Lookup tables of the component\<close>

text \<open>\<^verbatim>\<open>this.table[protons] || dflt\<close>: the default stands in for a missing key.\<close>

definition electronegativityOr :: "real \<Rightarrow> nat \<Rightarrow> real" where
  "electronegativityOr dflt p =
     (case map_of [(1::nat, 2.20::real), (6, 2.55), (7, 3.04), (8, 3.44), (9, 3.98)] p of
        None \<Rightarrow> dflt | Some v \<Rightarrow> v)"

definition valenceElectronsOr :: "real \<Rightarrow> nat \<Rightarrow> real" where
  "valenceElectronsOr dflt p =
     (case map_of [(1::nat, 1::real), (6, 4), (7, 5), (8, 6), (9, 7)] p of
        None \<Rightarrow> dflt | Some v \<Rightarrow> v)"

definition atomicRadiiOr :: "real \<Rightarrow> nat \<Rightarrow> real" where
  "atomicRadiiOr dflt p =
     (case map_of [(1::nat, 0.37::real), (6, 0.77), (7, 0.75), (8, 0.73), (9, 0.71)] p of
        None \<Rightarrow> dflt | Some v \<Rightarrow> v)"

subsection \<open>Energy model\<close>

definition kineticEnergy :: "Body \<Rightarrow> real" where
  "kineticEnergy b = 0.5 * mass b * (vx b * vx b + vy b * vy b + vz b * vz b)"

definition calculateSystemEnergy :: "State \<Rightarrow> real" where
  "calculateSystemEnergy s =
     (let e1 = foldl (\<lambda>totalEnergy a.
                  if \<not> isMoleculeMember (heap s a)
                  then totalEnergy + kineticEnergy (physicalBody (heap s a)) * 10
                  else totalEnergy) (transientHeatEnergy s) (atoms s)
      in foldl (\<lambda>totalEnergy m. totalEnergy + kineticEnergy (molBody m) * 10) e1 (molecules s))"

definition getMinimumActivationEnergy :: "Atom \<Rightarrow> Atom \<Rightarrow> real" where
  "getMinimumActivationEnergy a b =
     (let electronegativityA = electronegativityOr 2.0 (protons a);
          electronegativityB = electronegativityOr 2.0 (protons b);
          electronegativityDiff = \<bar>electronegativityA - electronegativityB\<bar>;
          baseEnergy = max 2 (10 - electronegativityDiff * 2);
          valenceA = valenceElectronsOr 4 (protons a);
          valenceB = valenceElectronsOr 4 (protons b);
          valenceBonus = (8 - valenceA) + (8 - valenceB)
      in max 1 (baseEnergy - valenceBonus * 0.5))"

definition canFormBondWithEnergy :: "Atom \<Rightarrow> Atom \<Rightarrow> real \<Rightarrow> bool" where
  "canFormBondWithEnergy a b systemEnergy = (systemEnergy \<ge> getMinimumActivationEnergy a b)"

definition consumeActivationEnergy :: "nat \<Rightarrow> nat \<Rightarrow> State \<Rightarrow> State" where
  "consumeActivationEnergy a b s =
     (let energyRequired = getMinimumActivationEnergy (heap s a) (heap s b)
      in s\<lparr>transientHeatEnergy := max 0 (transientHeatEnergy s - energyRequired)\<rparr>)"

text \<open>
  The reaction paths deduct their cost in place, each with the statement
  \<^verbatim>\<open>this.transientHeatEnergy = Math.max(0, this.transientHeatEnergy - energyConsumed)\<close>;
  \<^verbatim>\<open>attemptComplexReaction\<close> multiplies by 0.7 instead.
\<close>

definition deductEnergy :: "real \<Rightarrow> State \<Rightarrow> State" where
  "deductEnergy energyConsumed s =
     s\<lparr>transientHeatEnergy := max 0 (transientHeatEnergy s - energyConsumed)\<rparr>"

definition consumeThirty :: "State \<Rightarrow> State" where
  "consumeThirty s = s\<lparr>transientHeatEnergy := transientHeatEnergy s * 0.7\<rparr>"

text \<open>
  \<^verbatim>\<open>Math.random()\<close> is an input: \<open>rnd k\<close> is the result of the \<open>k\<close>-th call made by the
  operation.
\<close>

definition kick :: "real \<Rightarrow> real \<Rightarrow> real \<Rightarrow> real \<Rightarrow> Body \<Rightarrow> Body" where
  "kick intensity r1 r2 r3 b =
     b\<lparr>vx := vx b + (r1 - 0.5) * intensity,
       vy := vy b + (r2 - 0.5) * intensity,
       vz := vz b + (r3 - 0.5) * intensity\<rparr>"

fun kickMolecules :: "real \<Rightarrow> (nat \<Rightarrow> real) \<Rightarrow> nat \<Rightarrow> Molecule list \<Rightarrow> Molecule list" where
  "kickMolecules intensity rnd k [] = []"
| "kickMolecules intensity rnd k (m # ms) =
     m\<lparr>molBody := kick intensity (rnd k) (rnd (k + 1)) (rnd (k + 2)) (molBody m)\<rparr>
       # kickMolecules intensity rnd (k + 3) ms"

fun kickAtoms :: "real \<Rightarrow> (nat \<Rightarrow> real) \<Rightarrow> nat \<Rightarrow> nat list \<Rightarrow> (nat \<Rightarrow> Atom) \<Rightarrow> (nat \<Rightarrow> Atom)" where
  "kickAtoms intensity rnd k [] h = h"
| "kickAtoms intensity rnd k (a # as) h =
     (if isMoleculeMember (h a) then kickAtoms intensity rnd k as h
      else kickAtoms intensity rnd (k + 3) as
             (h(a := (h a)\<lparr>physicalBody :=
                  kick intensity (rnd k) (rnd (k + 1)) (rnd (k + 2)) (physicalBody (h a))\<rparr>)))"

definition applyGlobalHeatPulse :: "(nat \<Rightarrow> real) \<Rightarrow> State \<Rightarrow> State" where
  "applyGlobalHeatPulse rnd s =
     (let intensity = max 0 (heatIntensity s);
          ms = kickMolecules intensity rnd 0 (molecules s);
          h = kickAtoms intensity rnd (3 * length (molecules s)) (atoms s) (heap s)
      in s\<lparr>heap := h, molecules := ms,
           transientHeatEnergy := max (transientHeatEnergy s) (intensity * pulseEnergyBoost s)\<rparr>)"

text \<open>The decay statement at the head of \<^verbatim>\<open>animate\<close>.\<close>

definition animateDecay :: "State \<Rightarrow> State" where
  "animateDecay s =
     (if transientHeatEnergy s > 0
      then (let t = transientHeatEnergy s * 0.96
            in s\<lparr>transientHeatEnergy := (if t < 0.01 then 0 else t)\<rparr>)
      else s)"

text \<open>
  The second component: \<^verbatim>\<open>addSystemEnergy(amount)\<close>, \<^verbatim>\<open>resetSystemEnergy()\<close> and the decay
  statement of its \<^verbatim>\<open>animate\<close>, whose rate is the \<^verbatim>\<open>energyDecayRate\<close> of the current
  simulation mode.  The notification they show is not part of the model.
\<close>

definition addSystemEnergy2 :: "(nat \<Rightarrow> real) \<Rightarrow> real \<Rightarrow> State \<Rightarrow> State" where
  "addSystemEnergy2 rnd amount s =
     (let t = min 100 (transientHeatEnergy s + amount);
          intensity = amount * 0.3;
          h = kickAtoms intensity rnd 0 (atoms s) (heap s)
      in s\<lparr>heap := h, transientHeatEnergy := t\<rparr>)"

definition resetSystemEnergy2 :: "State \<Rightarrow> State" where
  "resetSystemEnergy2 s = s\<lparr>transientHeatEnergy := 0\<rparr>"

definition animateDecay2 :: "real \<Rightarrow> State \<Rightarrow> State" where
  "animateDecay2 decayRate s =
     (if transientHeatEnergy s > 0
      then (let t = transientHeatEnergy s * decayRate
            in s\<lparr>transientHeatEnergy := (if t < 0.1 then 0 else t)\<rparr>)
      else s)"

text \<open>
  The operations of \<^verbatim>\<open>simulation.component.ts\<close> that write \<^verbatim>\<open>transientHeatEnergy\<close> or the
  two public fields the heat pulse reads.
\<close>

datatype EnergyOp =
    HeatPulse "nat \<Rightarrow> real"
  | Decay
  | ConsumeActivation nat nat
  | Deduct real
  | ConsumeThirty
  | SetHeatIntensity real
  | SetPulseEnergyBoost real

fun applyEnergyOp :: "State \<Rightarrow> EnergyOp \<Rightarrow> State" where
  "applyEnergyOp s (HeatPulse rnd) = applyGlobalHeatPulse rnd s"
| "applyEnergyOp s Decay = animateDecay s"
| "applyEnergyOp s (ConsumeActivation a b) = consumeActivationEnergy a b s"
| "applyEnergyOp s (Deduct c) = deductEnergy c s"
| "applyEnergyOp s ConsumeThirty = consumeThirty s"
| "applyEnergyOp s (SetHeatIntensity v) = s\<lparr>heatIntensity := v\<rparr>"
| "applyEnergyOp s (SetPulseEnergyBoost v) = s\<lparr>pulseEnergyBoost := v\<rparr>"

subsection \<open>The reaction lock\<close>

text \<open>
  \<^verbatim>\<open>checkAndCreateBonds\<close> returns at once while a reaction is in progress, then throttles
  on the clock (\<open>now\<close> is the value of \<^verbatim>\<open>Date.now()\<close>), then scans the atom pairs.  The
  scan reads the positions kept by the physics collaborator, applies forces and starts
  gradual bonding; it is the parameter \<open>scan\<close>, which receives the clock and the system
  energy.
\<close>

definition checkAndCreateBonds ::
  "(real \<Rightarrow> real \<Rightarrow> State \<Rightarrow> State) \<Rightarrow> real \<Rightarrow> State \<Rightarrow> State" where
  "checkAndCreateBonds scan now s =
     (if reactionInProgress s then s
      else if now - lastBondCheck s < bondCheckInterval then s
      else (let s1 = s\<lparr>lastBondCheck := now\<rparr>;
                systemEnergy = calculateSystemEnergy s1
            in scan now systemEnergy s1))"

text \<open>
  The three searches of \<^verbatim>\<open>attemptComplexMolecularFormation\<close> look for reactants by
  distance; they are the parameters \<open>moleculeMolecule\<close>, \<open>atomMolecule\<close> and \<open>multiAtom\<close>
  (\<^verbatim>\<open>attemptMoleculeMoleculeReactions\<close>, \<^verbatim>\<open>attemptAtomMoleculeCombinations\<close>,
  \<^verbatim>\<open>attemptMultiAtomCombinations\<close>), each taking the system energy.
\<close>

definition attemptComplexMolecularFormation ::
  "(real \<Rightarrow> State \<Rightarrow> State) \<Rightarrow> (real \<Rightarrow> State \<Rightarrow> State) \<Rightarrow> (real \<Rightarrow> State \<Rightarrow> State)
   \<Rightarrow> real \<Rightarrow> State \<Rightarrow> State" where
  "attemptComplexMolecularFormation moleculeMolecule atomMolecule multiAtom systemEnergy s =
     (let s1 = moleculeMolecule systemEnergy s;
          s2 = (if \<not> reactionInProgress s1 then atomMolecule systemEnergy s1 else s1);
          s3 = (if \<not> reactionInProgress s2 then multiAtom systemEnergy s2 else s2)
      in s3)"

definition attemptMolecularReactions ::
  "(real \<Rightarrow> State \<Rightarrow> State) \<Rightarrow> (real \<Rightarrow> State \<Rightarrow> State) \<Rightarrow> (real \<Rightarrow> State \<Rightarrow> State)
   \<Rightarrow> State \<Rightarrow> State" where
  "attemptMolecularReactions moleculeMolecule atomMolecule multiAtom s =
     (if reactionInProgress s then s
      else if transientHeatEnergy s > 20
      then attemptComplexMolecularFormation moleculeMolecule atomMolecule multiAtom
             (calculateSystemEnergy s) s
      else s)"

subsection \<open>Bonds\<close>

text \<open>\<^verbatim>\<open>`${atomA.id}-${atomB.id}`\<close>, for two references into the store.\<close>

definition bondIdOf :: "(nat \<Rightarrow> Atom) \<Rightarrow> nat \<Rightarrow> nat \<Rightarrow> string" where
  "bondIdOf h a b = show_nat (atomId (h a)) @ ''-'' @ show_nat (atomId (h b))"

definition bondExists :: "State \<Rightarrow> nat \<Rightarrow> nat \<Rightarrow> bool" where
  "bondExists s a b =
     list_ex (\<lambda>bond. bondId bond = bondIdOf (heap s) a b \<or> bondId bond = bondIdOf (heap s) b a)
       (bonds s)"

text \<open>
  The bonds that touch an atom, as \<^verbatim>\<open>identifyMolecules\<close> filters them; their number is
  what \<^verbatim>\<open>countAtomBonds\<close> of the second component returns.
\<close>

definition connectedBonds :: "(nat \<Rightarrow> Atom) \<Rightarrow> Bond list \<Rightarrow> nat \<Rightarrow> Bond list" where
  "connectedBonds h bs current =
     filter (\<lambda>b. atomId (h (atomA b)) = atomId (h current)
                \<or> atomId (h (atomB b)) = atomId (h current)) bs"

definition countAtomBonds2 :: "State \<Rightarrow> nat \<Rightarrow> nat" where
  "countAtomBonds2 s a = length (connectedBonds (heap s) (bonds s) a)"

text \<open>The bond records of an unordered pair of atoms, in either orientation of the id.\<close>

definition pairRecords :: "State \<Rightarrow> nat \<Rightarrow> nat \<Rightarrow> Bond list" where
  "pairRecords s a b =
     filter (\<lambda>bond. bondId bond = bondIdOf (heap s) a b \<or> bondId bond = bondIdOf (heap s) b a)
       (bonds s)"

subsection \<open>Molecule identification\<close>

text \<open>
  \<^verbatim>\<open>connectedComponent.map(a => a.id).sort().join('-')\<close>: \<^verbatim>\<open>sort()\<close> without a comparison
  function orders the numbers by their decimal strings.
\<close>

definition moleculeIdOf :: "nat list \<Rightarrow> string" where
  "moleculeIdOf ids = join ''-'' (map show_nat (sort_key show_nat ids))"




text \<open>
  The traversal.  \<open>toVisit\<close> is the stack, its head the last element of the array
  (\<^verbatim>\<open>push\<close> is \<open>#\<close>, \<^verbatim>\<open>pop\<close> takes the head); \<open>checkedAtoms\<close> is the set of identifiers.
\<close>

fun visitNeighbors ::
  "(nat \<Rightarrow> Atom) \<Rightarrow> nat \<Rightarrow> Bond list \<Rightarrow> nat set \<times> nat list \<Rightarrow> nat set \<times> nat list" where
  "visitNeighbors h current [] acc = acc"
| "visitNeighbors h current (bond # rest) (checkedAtoms, toVisit) =
     (let neighbor = (if atomId (h (atomA bond)) = atomId (h current)
                      then atomB bond else atomA bond)
      in if \<not> isMoleculeMember (h neighbor) \<and> atomId (h neighbor) \<notin> checkedAtoms
         then visitNeighbors h current rest
                (insert (atomId (h neighbor)) checkedAtoms, neighbor # toVisit)
         else visitNeighbors h current rest (checkedAtoms, toVisit))"

definition endpointIds :: "(nat \<Rightarrow> Atom) \<Rightarrow> Bond list \<Rightarrow> nat set" where
  "endpointIds h bs = (\<lambda>r. atomId (h r)) ` (atomA ` set bs \<union> atomB ` set bs)"

lemma visitNeighbors_grows:
  "visitNeighbors h current cbs (ch, tv) = (ch', tv') \<Longrightarrow> set cbs \<subseteq> set bs \<Longrightarrow>
     ch \<subseteq> ch' \<and> ch' \<subseteq> ch \<union> endpointIds h bs \<and> (ch' = ch \<longrightarrow> tv' = tv)"
proof (induction cbs arbitrary: ch tv)
  case Nil
  then show ?case by simp
next
  case (Cons bond rest)
  let ?n = "if atomId (h (atomA bond)) = atomId (h current) then atomB bond else atomA bond"
  have nin: "atomId (h ?n) \<in> endpointIds h bs"
    using Cons.prems(2) by (auto simp: endpointIds_def)
  show ?case
  proof (cases "\<not> isMoleculeMember (h ?n) \<and> atomId (h ?n) \<notin> ch")
    case True
    then have "visitNeighbors h current rest (insert (atomId (h ?n)) ch, ?n # tv) = (ch', tv')"
      using Cons.prems(1) by (simp add: Let_def)
    from Cons.IH [OF this] Cons.prems(2)
    have "insert (atomId (h ?n)) ch \<subseteq> ch'"
      and "ch' \<subseteq> insert (atomId (h ?n)) ch \<union> endpointIds h bs" by auto
    then show ?thesis using True nin by auto
  next
    case False
    then have "visitNeighbors h current rest (ch, tv) = (ch', tv')"
      using Cons.prems(1) by (auto simp: Let_def)
    from Cons.IH [OF this] Cons.prems(2) show ?thesis by auto
  qed
qed

function collectComponent ::
  "(nat \<Rightarrow> Atom) \<Rightarrow> Bond list \<Rightarrow> nat list \<Rightarrow> nat set \<Rightarrow> nat list \<Rightarrow> nat list \<times> nat set" where
  "collectComponent h bs [] checkedAtoms component = (component, checkedAtoms)"
| "collectComponent h bs (current # rest) checkedAtoms component =
     (case visitNeighbors h current (connectedBonds h bs current) (checkedAtoms, rest) of
        (checkedAtoms', toVisit') \<Rightarrow>
          collectComponent h bs toVisit' checkedAtoms' (component @ [current]))"
  by pat_completeness auto
termination
proof (relation "measures [\<lambda>(h, bs, tv, ch, c). card (endpointIds h bs - ch),
                           \<lambda>(h, bs, tv, ch, c). length tv]", goal_cases)
  case 1
  then show ?case by simp
next
  case (2 h bs current rest ch component ch' tv')
  then have v: "visitNeighbors h current (connectedBonds h bs current) (ch, rest) = (ch', tv')"
    by simp
  have sub: "set (connectedBonds h bs current) \<subseteq> set bs"
    by (auto simp: connectedBonds_def)
  from visitNeighbors_grows [OF v sub]
  have g: "ch \<subseteq> ch'" "ch' \<subseteq> ch \<union> endpointIds h bs" "ch' = ch \<longrightarrow> tv' = rest" by auto
  have fin: "finite (endpointIds h bs - ch)"
    by (simp add: endpointIds_def)
  show ?case
  proof (cases "ch' = ch")
    case True
    then show ?thesis using g(3) by simp
  next
    case False
    then have "endpointIds h bs - ch' \<subset> endpointIds h bs - ch"
      using g(1) g(2) by auto
    then have "card (endpointIds h bs - ch') < card (endpointIds h bs - ch)"
      using fin by (rule psubset_card_mono [rotated])
    then show ?thesis by simp
  qed
qed

text \<open>
  \<^verbatim>\<open>createAdvancedMolecule\<close>.  The loop over the atoms reads
  \<^verbatim>\<open>relativePositions.get(a.id)!\<close> and then its \<^verbatim>\<open>x\<close>: an atom without a position makes
  it throw, after the atoms before it have been marked.  A throw leaves the state as it
  is at that point, which the error value carries.
\<close>

fun markMembers ::
  "nat list \<Rightarrow> nat list \<Rightarrow> (nat \<Rightarrow> Atom) \<Rightarrow> (error \<times> (nat \<Rightarrow> Atom)) + (nat \<Rightarrow> Atom)" where
  "markMembers positioned [] h = Inr h"
| "markMembers positioned (a # as) h =
     (if atomId (h a) \<in> set positioned
      then markMembers positioned as (h(a := (h a)\<lparr>isMoleculeMember := True\<rparr>))
      else Inl (TypeError, h))"

definition deleteBonds :: "Bond list \<Rightarrow> Bond list \<Rightarrow> Bond list" where
  "deleteBonds toDelete bs = foldl (\<lambda>acc b. filter (\<lambda>x. bondId x \<noteq> bondId b) acc) bs toDelete"

definition createAdvancedMolecule ::
  "string \<Rightarrow> string \<Rightarrow> string \<Rightarrow> nat list \<Rightarrow> State
   \<Rightarrow> (error \<times> State) + (Molecule option \<times> State)" where
  "createAdvancedMolecule moleculeId structName geometry component s =
     (let as = map (heap s) component;
          moleculeMass = foldl (\<lambda>sum a. sum + mass (physicalBody a)) 0 as
      in case positionedAtoms as geometry None of
           Inl e \<Rightarrow> Inl (e, s)
         | Inr positioned \<Rightarrow>
           if positioned = [] then Inr (None, s)
           else
             (case markMembers positioned component (heap s) of
                Inl (e, h) \<Rightarrow> Inl (e, s\<lparr>heap := h\<rparr>)
              | Inr h \<Rightarrow>
                (let moleculeBonds = filter (\<lambda>b. atomA b \<in> set component
                                               \<and> atomB b \<in> set component) (bonds s);
                     molecule = \<lparr>molId = moleculeId, molName = structName,
                                 molAtoms = component,
                                 molBody = \<lparr>mass = moleculeMass * 0.8,
                                            vx = 0, vy = 0, vz = 0\<rparr>\<rparr>
                 in Inr (Some molecule,
                         s\<lparr>heap := h, bonds := deleteBonds moleculeBonds (bonds s)\<rparr>))))"

text \<open>The body of the \<^verbatim>\<open>if (connectedComponent.length >= 2)\<close> branch.\<close>

definition processComponent :: "nat list \<Rightarrow> State \<Rightarrow> (error \<times> State) + State" where
  "processComponent component s =
     (let as = map (heap s) component
      in case calculateOptimalBondingStructure as of
           Inl e \<Rightarrow> Inl (e, s)
         | Inr bondingStructure \<Rightarrow>
           (let systematicName = generateSystematicName as
            in case determineGeometry as (structBonds bondingStructure)
                      (structCentralAtom bondingStructure) of
                 Inl e \<Rightarrow> Inl (e, s)
               | Inr geometry \<Rightarrow>
                 (let s1 = (if \<not> list_ex (\<lambda>m. m = systematicName) (discoveredMolecules s)
                            then s\<lparr>discoveredMolecules :=
                                     discoveredMolecules s @ [systematicName]\<rparr>
                            else s);
                      moleculeId = moleculeIdOf (map atomId as)
                  in case find (\<lambda>m. molId m = moleculeId) (molecules s1) of
                       Some existingMolecule \<Rightarrow> Inr s1
                     | None \<Rightarrow>
                       (case createAdvancedMolecule moleculeId systematicName geometry
                               component s1 of
                          Inl e \<Rightarrow> Inl e
                        | Inr (None, s2) \<Rightarrow> Inr s2
                        | Inr (Some molecule, s2) \<Rightarrow>
                            Inr (s2\<lparr>molecules := molecules s2 @ [molecule]\<rparr>)))))"

definition clearMembers :: "nat list \<Rightarrow> (nat \<Rightarrow> Atom) \<Rightarrow> (nat \<Rightarrow> Atom)" where
  "clearMembers component h = foldl (\<lambda>h' a. h'(a := (h' a)\<lparr>isMoleculeMember := False\<rparr>)) h component"

fun identifyLoop :: "nat list \<Rightarrow> nat set \<Rightarrow> State \<Rightarrow> (error \<times> State) + State" where
  "identifyLoop [] checkedAtoms s = Inr s"
| "identifyLoop (atom # rest) checkedAtoms s =
     (if atomId (heap s atom) \<in> checkedAtoms \<or> isMoleculeMember (heap s atom)
      then identifyLoop rest checkedAtoms s
      else
        (case collectComponent (heap s) (bonds s) [atom]
                (insert (atomId (heap s atom)) checkedAtoms) [] of
           (connectedComponent, checkedAtoms') \<Rightarrow>
             if length connectedComponent \<ge> 2
             then (case processComponent connectedComponent s of
                     Inl e \<Rightarrow> Inl e
                   | Inr s' \<Rightarrow> identifyLoop rest checkedAtoms' s')
             else identifyLoop rest checkedAtoms'
                    (s\<lparr>heap := clearMembers connectedComponent (heap s)\<rparr>)))"

definition identifyMolecules :: "State \<Rightarrow> (error \<times> State) + State" where
  "identifyMolecules s =
     (case identifyLoop (atoms s) {} s of
        Inl e \<Rightarrow> Inl e
      | Inr s' \<Rightarrow> Inr (s'\<lparr>moleculeNames := map molName (molecules s')\<rparr>))"

subsection \<open>The table of known compositions\<close>

text \<open>
  \<^verbatim>\<open>identifyMoleculeType\<close> with its helpers.  No path of \<^verbatim>\<open>simulation.component.ts\<close>
  calls it: \<^verbatim>\<open>identifyMolecules\<close> takes the name from \<open>generateSystematicName\<close>.
\<close>

record MoleculeInfo =
  infoName :: string
  infoGeometry :: string
  infoBondLength :: real

definition betterCentralByValence :: "Atom \<Rightarrow> Atom \<Rightarrow> Atom" where
  "betterCentralByValence best current =
     (let bestValence = valenceElectronsOr 0 (protons best);
          currentValence = valenceElectronsOr 0 (protons current);
          bestElectronegativity = electronegativityOr 0 (protons best);
          currentElectronegativity = electronegativityOr 0 (protons current);
          bestScore = bestValence - bestElectronegativity;
          currentScore = currentValence - currentElectronegativity
      in if currentScore > bestScore then current else best)"

fun findBestCentralAtom :: "Atom list \<Rightarrow> error + Atom" where
  "findBestCentralAtom [] = Inl TypeError"
| "findBestCentralAtom (a # as) = Inr (foldl betterCentralByValence a as)"

definition inferGeometry :: "Atom list \<Rightarrow> error + string" where
  "inferGeometry as =
     (if length as = 2 then Inr ''linear''
      else
        (case (if length as = 3
               then (case findBestCentralAtom as of
                       Inl e \<Rightarrow> Inl e
                     | Inr centralAtom \<Rightarrow>
                         if protons centralAtom = 6 \<or> protons centralAtom = 7
                         then Inr (Some ''linear'')
                         else if protons centralAtom = 8 then Inr (Some ''bent'')
                         else Inr None)
               else Inr None) of
           Inl e \<Rightarrow> Inl e
         | Inr (Some g) \<Rightarrow> Inr g
         | Inr None \<Rightarrow>
             if length as = 4 then Inr ''tetrahedral''
             else if length as = 5 then Inr ''trigonal_bipyramidal''
             else if length as = 6 then Inr ''octahedral''
             else Inr ''complex''))"

definition calculateAverageBondLength :: "Atom list \<Rightarrow> real" where
  "calculateAverageBondLength as =
     (if length as < 2 then 2.0
      else
        (let lengths = map (\<lambda>(x, y). (atomicRadiiOr 1.0 (protons x)
                                        + atomicRadiiOr 1.0 (protons y)) * 1.2) (pairsOf as);
             totalLength = foldl (+) 0 lengths;
             bondCount = length lengths
         in if bondCount > 0 then totalLength / real bondCount else 2.0))"

definition elementSymbolOr :: "nat \<Rightarrow> string" where
  "elementSymbolOr p =
     (case map_of [(1::nat, ''H''), (6, ''C''), (7, ''N''), (8, ''O''), (9, ''F'')] p of
        None \<Rightarrow> ''E'' @ show_nat p | Some known \<Rightarrow> known)"

definition generateMolecularName :: "(nat \<times> nat) list \<Rightarrow> nat \<Rightarrow> string" where
  "generateMolecularName counts totalAtoms =
     (let sortedElements = sort_key fst counts;
          parts = map (\<lambda>(p, cnt). if cnt = 1 then elementSymbolOr p
                                   else elementSymbolOr p @ subscriptOf cnt) sortedElements
      in ''Unknown Compound ('' @ concat parts @ '')'')"

definition sub2 :: string where
  "sub2 = [CHR 0xE2, CHR 0x82, CHR 0x82]"

definition identifyMoleculeType :: "Atom list \<Rightarrow> error + MoleculeInfo" where
  "identifyMoleculeType as =
     (let counts = countElements as;
          hCount = countOf counts 1;
          cCount = countOf counts 6;
          nCount = countOf counts 7;
          oCount = countOf counts 8
      in if oCount = 1 \<and> hCount = 2 \<and> length as = 3
         then Inr \<lparr>infoName = ''Water (H'' @ sub2 @ ''O)'', infoGeometry = ''bent'',
                   infoBondLength = 2.0\<rparr>
         else if cCount = 1 \<and> oCount = 2 \<and> length as = 3
         then Inr \<lparr>infoName = ''Carbon Dioxide (CO'' @ sub2 @ '')'', infoGeometry = ''linear'',
                   infoBondLength = 2.2\<rparr>
         else if nCount = 2 \<and> oCount = 1 \<and> length as = 3
         then Inr \<lparr>infoName = ''Nitrous Oxide (N'' @ sub2 @ ''O)'', infoGeometry = ''linear'',
                   infoBondLength = 1.8\<rparr>
         else if nCount = 2 \<and> length as = 2
         then Inr \<lparr>infoName = ''Nitrogen Gas (N'' @ sub2 @ '')'', infoGeometry = ''linear'',
                   infoBondLength = 1.6\<rparr>
         else if oCount = 2 \<and> length as = 2
         then Inr \<lparr>infoName = ''Oxygen Gas (O'' @ sub2 @ '')'', infoGeometry = ''linear'',
                   infoBondLength = 1.5\<rparr>
         else if hCount = 2 \<and> length as = 2
         then Inr \<lparr>infoName = ''Hydrogen Gas (H'' @ sub2 @ '')'', infoGeometry = ''linear'',
                   infoBondLength = 1.2\<rparr>
         else
           (case inferGeometry as of
              Inl e \<Rightarrow> Inl e
            | Inr geometry \<Rightarrow>
                Inr \<lparr>infoName = generateMolecularName counts (length as),
                     infoGeometry = geometry,
                     infoBondLength = calculateAverageBondLength as\<rparr>))"

subsection \<open>Bond creation\<close>

definition createBond :: "nat \<Rightarrow> nat \<Rightarrow> bool \<Rightarrow> State \<Rightarrow> (error \<times> State) + State" where
  "createBond a b suppressIdentify s =
     (if bondExists s a b then Inr s
      else if \<not> suppressIdentify
              \<and> \<not> canFormBondWithEnergy (heap s a) (heap s b) (calculateSystemEnergy s)
      then Inr s
      else
        (let s1 = s\<lparr>bonds := bonds s @ [\<lparr>bondId = bondIdOf (heap s) a b,
                                          atomA = a, atomB = b\<rparr>]\<rparr>
         in if \<not> suppressIdentify then identifyMolecules s1 else Inr s1))"

subsection \<open>Reactions\<close>

text \<open>
  \<^verbatim>\<open>String.prototype.includes\<close>, and the state carried by the outcome of a call.
  \<open>stateOf\<close> is used after calls that cannot throw: \<open>createBond\<close> with
  \<^verbatim>\<open>suppressIdentify\<close> set returns \<open>Inr\<close> on every input.
\<close>

fun includesStr :: "string \<Rightarrow> string \<Rightarrow> bool" where
  "includesStr [] searchString = (searchString = [])"
| "includesStr (c # cs) searchString =
     (take (length searchString) (c # cs) = searchString \<or> includesStr cs searchString)"

definition stateOf :: "(error \<times> State) + State \<Rightarrow> State" where
  "stateOf r = (case r of Inl (e, s) \<Rightarrow> s | Inr s \<Rightarrow> s)"

definition followsValenceRules :: "Atom list \<Rightarrow> bool" where
  "followsValenceRules as =
     (let totalValenceElectrons =
            foldl (\<lambda>total a. total + valenceElectronsOr 4 (protons a)) 0 as;
          expectedBonds = \<lfloor>totalValenceElectrons / 2\<rfloor>;
          maxPossibleBonds = real (length as * (length as - 1)) / 2
      in real_of_int expectedBonds \<le> maxPossibleBonds \<and> length as \<le> 6)"

definition isChemicallyStable :: "Atom list \<Rightarrow> bool" where
  "isChemicallyStable as =
     (let elementCounts = countElements as;
          hCount = countOf elementCounts 1;
          cCount = countOf elementCounts 6;
          nCount = countOf elementCounts 7;
          oCount = countOf elementCounts 8;
          fCount = countOf elementCounts 9
      in if cCount = 1 \<and> oCount = 2 \<and> length as = 3 then True
         else if cCount = 1 \<and> hCount = 4 \<and> length as = 5 then True
         else if oCount = 1 \<and> hCount = 2 \<and> length as = 3 then True
         else if nCount = 1 \<and> hCount = 3 \<and> length as = 4 then True
         else if hCount = 2 \<and> length as = 2 then True
         else if oCount = 2 \<and> length as = 2 then True
         else if nCount = 2 \<and> length as = 2 then True
         else if cCount = 1 \<and> oCount = 1 \<and> length as = 2 then True
         else if nCount = 1 \<and> oCount = 1 \<and> length as = 2 then True
         else if hCount = 1 \<and> fCount = 1 \<and> length as = 2 then True
         else if length as \<ge> 2 \<and> length as \<le> 6 then followsValenceRules as
         else False)"

text \<open>
  \<^verbatim>\<open>createOptimalMolecularStructure\<close> takes the flag, frees and stops the atoms, moves
  them around the first one (positions are kept by the physics collaborator) and
  schedules the bonding.  \<^verbatim>\<open>atoms[0].physicalBody\<close> throws on an empty array, after the
  flag is set.
\<close>

definition stopAtoms :: "nat list \<Rightarrow> (nat \<Rightarrow> Atom) \<Rightarrow> nat \<Rightarrow> Atom" where
  "stopAtoms as h =
     foldl (\<lambda>h' a. h'(a := (h' a)\<lparr>isMoleculeMember := False,
                                  physicalBody := (physicalBody (h' a))\<lparr>vx := 0, vy := 0, vz := 0\<rparr>\<rparr>))
       h as"

definition createOptimalMolecularStructure ::
  "nat list \<Rightarrow> real \<Rightarrow> State \<Rightarrow> (error \<times> State) + State" where
  "createOptimalMolecularStructure as systemEnergy s =
     (let s1 = s\<lparr>reactionInProgress := True\<rparr>
      in if as = [] then Inl (TypeError, s1)
         else Inr (s1\<lparr>heap := stopAtoms as (heap s1),
                      pending := pending s1 @ [(100, StructureBonds as)]\<rparr>))"

text \<open>
  The outer callback of \<^verbatim>\<open>createOptimalMolecularStructure\<close>: a bond for every pair of
  the atoms closer than 3.0 (\<open>distance\<close> gives the distance between two atoms when the
  callback runs; \<^verbatim>\<open>bondsCreated\<close> counts the requests, also those \<open>createBond\<close> ignores),
  the energy of the bonds, and the inner callback, scheduled 200 ms later.
\<close>

definition structureBonds :: "(nat \<Rightarrow> nat \<Rightarrow> real) \<Rightarrow> nat list \<Rightarrow> State \<Rightarrow> State" where
  "structureBonds distance as s =
     (let (s1, bondsCreated) =
            foldl (\<lambda>(st, created) (x, y).
                     if distance x y < 3.0
                     then (stateOf (createBond x y True st), created + 1)
                     else (st, created)) (s, 0::nat) (pairsOf as);
          energyConsumed = real bondsCreated * 8
      in s1\<lparr>transientHeatEnergy := max 0 (transientHeatEnergy s1 - energyConsumed),
             pending := pending s1 @ [(200, FinishStructure)]\<rparr>)"

text \<open>
  The inner callback: \<^verbatim>\<open>this.identifyMolecules(); this.reactionInProgress = false\<close>.  When
  the identification throws, the flag stays set.
\<close>

definition finishStructure :: "State \<Rightarrow> (error \<times> State) + State" where
  "finishStructure s =
     (case identifyMolecules s of
        Inl e \<Rightarrow> Inl e
      | Inr s' \<Rightarrow> Inr (s'\<lparr>reactionInProgress := False\<rparr>))"

definition fireDeferred ::
  "(nat \<Rightarrow> nat \<Rightarrow> real) \<Rightarrow> Deferred \<Rightarrow> State \<Rightarrow> (error \<times> State) + State" where
  "fireDeferred distance d s =
     (case d of
        IdentifyMolecules \<Rightarrow> identifyMolecules s
      | CreateStructure as systemEnergy \<Rightarrow> createOptimalMolecularStructure as systemEnergy s
      | StructureBonds as \<Rightarrow> Inr (structureBonds distance as s)
      | FinishStructure \<Rightarrow> finishStructure s)"

text \<open>
  The event loop runs a pending callback once its delay has passed.  Which callback is
  due is decided by the clock: \<open>runPending k\<close> removes the callback at position \<open>k\<close> of
  \<open>pending\<close> and runs it.
\<close>

definition runPending ::
  "nat \<Rightarrow> (nat \<Rightarrow> nat \<Rightarrow> real) \<Rightarrow> State \<Rightarrow> (error \<times> State) + State" where
  "runPending k distance s =
     (if k < length (pending s)
      then fireDeferred distance (snd (pending s ! k))
             (s\<lparr>pending := take k (pending s) @ drop (Suc k) (pending s)\<rparr>)
      else Inr s)"

text \<open>
  \<^verbatim>\<open>attemptMultiAtomCombinations\<close>.  The three nested loops look for the first pair of
  free atoms closer than 6 that is stable and affordable, or else the first third atom
  that makes a stable, affordable group with them; \<open>distance\<close> gives the distance between two
  atoms.  \<open>searchThird\<close> is the loop over \<open>k\<close>, \<open>searchPartner\<close> the loop over \<open>j\<close>,
  \<open>searchCombination\<close> the loop over \<open>i\<close>.
\<close>

datatype Combination = TwoAtoms nat nat | ThreeAtoms nat nat nat

definition searchThird ::
  "(nat \<Rightarrow> nat \<Rightarrow> real) \<Rightarrow> (nat \<Rightarrow> Atom) \<Rightarrow> real \<Rightarrow> nat \<Rightarrow> nat \<Rightarrow> nat list \<Rightarrow> nat option" where
  "searchThird distance h systemEnergy a b cs =
     find (\<lambda>c. distance a c < 6 \<and> distance b c < 6
                \<and> isChemicallyStable [h a, h b, h c] \<and> systemEnergy \<ge> 20) cs"

fun searchPartner ::
  "(nat \<Rightarrow> nat \<Rightarrow> real) \<Rightarrow> (nat \<Rightarrow> Atom) \<Rightarrow> real \<Rightarrow> nat \<Rightarrow> nat list \<Rightarrow> Combination option" where
  "searchPartner distance h systemEnergy a [] = None"
| "searchPartner distance h systemEnergy a (b # rest) =
     (if distance a b < 6
      then (if isChemicallyStable [h a, h b]
               \<and> systemEnergy \<ge> getMinimumActivationEnergy (h a) (h b)
            then Some (TwoAtoms a b)
            else (case searchThird distance h systemEnergy a b rest of
                    Some c \<Rightarrow> Some (ThreeAtoms a b c)
                  | None \<Rightarrow> searchPartner distance h systemEnergy a rest))
      else searchPartner distance h systemEnergy a rest)"

fun searchCombination ::
  "(nat \<Rightarrow> nat \<Rightarrow> real) \<Rightarrow> (nat \<Rightarrow> Atom) \<Rightarrow> real \<Rightarrow> nat list \<Rightarrow> Combination option" where
  "searchCombination distance h systemEnergy [] = None"
| "searchCombination distance h systemEnergy (a # rest) =
     (case searchPartner distance h systemEnergy a rest of
        Some found \<Rightarrow> Some found
      | None \<Rightarrow> searchCombination distance h systemEnergy rest)"

definition freeAtomsOf :: "State \<Rightarrow> nat list" where
  "freeAtomsOf s = filter (\<lambda>a. \<not> isMoleculeMember (heap s a)) (atoms s)"

text \<open>
  A pair is bonded at once and its identification is deferred by 100 ms; the flag is
  not touched.  A group of three goes to \<open>createOptimalMolecularStructure\<close>, which takes
  the flag.
\<close>

definition attemptMultiAtomCombinations ::
  "(nat \<Rightarrow> nat \<Rightarrow> real) \<Rightarrow> real \<Rightarrow> State \<Rightarrow> State" where
  "attemptMultiAtomCombinations distance systemEnergy s =
     (case searchCombination distance (heap s) systemEnergy (freeAtomsOf s) of
        None \<Rightarrow> s
      | Some (TwoAtoms a b) \<Rightarrow>
          (let s1 = stateOf (createBond a b True s)
           in s1\<lparr>pending := pending s1 @ [(100, IdentifyMolecules)]\<rparr>)
      | Some (ThreeAtoms a b c) \<Rightarrow>
          stateOf (createOptimalMolecularStructure [a, b, c] systemEnergy s))"

text \<open>
  \<^verbatim>\<open>attemptAtomMoleculeCombinations\<close>: the first free atom and molecule closer than 8
  (\<open>distM\<close> gives the distance between an atom and the body of a molecule) that may
  react do so, through \<^verbatim>\<open>performGenericAtomMoleculeReaction\<close> and
  \<^verbatim>\<open>addAtomToMolecule\<close>; when there is none, the multi-atom search runs.
\<close>

definition calculateAtomMoleculeActivationEnergy :: "Atom \<Rightarrow> Molecule \<Rightarrow> real" where
  "calculateAtomMoleculeActivationEnergy atom m =
     (if protons atom = 6 \<and> includesStr (molName m) ''Oxygen Gas'' then 15
      else if protons atom = 1 \<and> includesStr (molName m) ''Oxygen'' then 8
      else 10 + real (length (molAtoms m)) * 3)"

definition canAtomJoinMolecule :: "(nat \<Rightarrow> Atom) \<Rightarrow> nat \<Rightarrow> Molecule \<Rightarrow> real \<Rightarrow> bool" where
  "canAtomJoinMolecule h atom m systemEnergy =
     (if isChemicallyStable (h atom # map h (molAtoms m))
      then systemEnergy \<ge> calculateAtomMoleculeActivationEnergy (h atom) m
      else False)"

definition addAtomToMolecule :: "nat \<Rightarrow> Molecule \<Rightarrow> real \<Rightarrow> State \<Rightarrow> State" where
  "addAtomToMolecule atom m systemEnergy s =
     (let h1 = (heap s)(atom := (heap s atom)
                  \<lparr>physicalBody := (physicalBody (heap s atom))\<lparr>vx := 0, vy := 0, vz := 0\<rparr>\<rparr>);
          allAtoms = atom # molAtoms m;
          h2 = foldl (\<lambda>h a. h(a := (h a)\<lparr>isMoleculeMember := False\<rparr>)) h1 allAtoms;
          energyConsumed = calculateAtomMoleculeActivationEnergy (h2 atom) m
      in s\<lparr>heap := h2,
            molecules := filter (\<lambda>x. molId x \<noteq> molId m) (molecules s),
            transientHeatEnergy := max 0 (transientHeatEnergy s - energyConsumed),
            pending := pending s @ [(50, CreateStructure allAtoms systemEnergy)]\<rparr>)"

definition performGenericAtomMoleculeReaction ::
  "nat \<Rightarrow> Molecule \<Rightarrow> real \<Rightarrow> State \<Rightarrow> State" where
  "performGenericAtomMoleculeReaction atom m systemEnergy s =
     addAtomToMolecule atom m systemEnergy (s\<lparr>reactionInProgress := True\<rparr>)"

definition searchJoin ::
  "(nat \<Rightarrow> Molecule \<Rightarrow> real) \<Rightarrow> real \<Rightarrow> State \<Rightarrow> (nat \<times> Molecule) option" where
  "searchJoin distM systemEnergy s =
     find (\<lambda>(atom, m). distM atom m < 8 \<and> canAtomJoinMolecule (heap s) atom m systemEnergy)
       (concat (map (\<lambda>atom. map (Pair atom) (molecules s)) (freeAtomsOf s)))"

definition attemptAtomMoleculeCombinations ::
  "(nat \<Rightarrow> Molecule \<Rightarrow> real) \<Rightarrow> (nat \<Rightarrow> nat \<Rightarrow> real) \<Rightarrow> real \<Rightarrow> State \<Rightarrow> State" where
  "attemptAtomMoleculeCombinations distM distance systemEnergy s =
     (case searchJoin distM systemEnergy s of
        Some (atom, m) \<Rightarrow> performGenericAtomMoleculeReaction atom m systemEnergy s
      | None \<Rightarrow> attemptMultiAtomCombinations distance systemEnergy s)"

text \<open>
  \<^verbatim>\<open>attemptMoleculeMoleculeReactions\<close> with \<^verbatim>\<open>checkOtherMoleculeMoleculeReactions\<close>: each of
  their three reactions asks for at least two molecules whose name includes
  \<^verbatim>\<open>Hydrogen Gas\<close>; with fewer, nothing is done.  The reactions themselves, which read the
  positions of the molecule bodies, are the parameter \<open>react\<close>.
\<close>

definition attemptMoleculeMoleculeReactions ::
  "(real \<Rightarrow> State \<Rightarrow> State) \<Rightarrow> real \<Rightarrow> State \<Rightarrow> State" where
  "attemptMoleculeMoleculeReactions react systemEnergy s =
     (let h2Molecules = filter (\<lambda>m. includesStr (molName m) ''Hydrogen Gas'') (molecules s)
      in if length h2Molecules \<ge> 2 then react systemEnergy s else s)"

text \<open>
  One frame of \<^verbatim>\<open>animate\<close>, as far as the reactions go: the decay of the transient
  energy, then \<^verbatim>\<open>attemptMolecularReactions\<close> with the three searches above.  The bond
  scan of the frame is left out: it writes \<open>lastBondCheck\<close>, applies forces and starts
  gradual bondings, whose bond is created by a callback two seconds later.
\<close>

definition reactionTick ::
  "(real \<Rightarrow> State \<Rightarrow> State) \<Rightarrow> (nat \<Rightarrow> Molecule \<Rightarrow> real) \<Rightarrow> (nat \<Rightarrow> nat \<Rightarrow> real)
   \<Rightarrow> State \<Rightarrow> State" where
  "reactionTick react distM distance s =
     attemptMolecularReactions (attemptMoleculeMoleculeReactions react)
       (attemptAtomMoleculeCombinations distM distance) (attemptMultiAtomCombinations distance)
       (animateDecay s)"

subsection \<open>Example inputs\<close>

definition mkAtom :: "nat \<Rightarrow> nat \<Rightarrow> Atom" where
  "mkAtom i p =
     \<lparr>atomId = i, protons = p, neutrons = 0, electronsCount = p,
      physicalBody = \<lparr>mass = (if p > 0 then real p else 1), vx = 0, vy = 0, vz = 0\<rparr>,
      isMoleculeMember = False\<rparr>"

definition hydrogenElement :: ChemicalElement where
  "hydrogenElement = mkElement 1 ''H'' ''Hydrogen'' 1 1 2.20 0.37 13.6 0.75 [-1, 1]"

definition oxygenElement :: ChemicalElement where
  "oxygenElement = mkElement 8 ''O'' ''Oxygen'' 6 2 3.44 0.73 13.6 1.46 [-2, -1, 0, 1, 2]"

definition waterAtoms :: "Atom list" where
  "waterAtoms = [mkAtom 0 8, mkAtom 1 1, mkAtom 2 1]"

definition waterBonds :: "BondingPair list" where
  "waterBonds = [the (calculateBondProperties (mkAtom 0 8) (mkAtom 1 1)),
                 the (calculateBondProperties (mkAtom 0 8) (mkAtom 2 1))]"

definition exampleState :: State where
  "exampleState =
     \<lparr>heap = (\<lambda>i. mkAtom i 1), atoms = [0, 1, 2], bonds = [], molecules = [],
      moleculeNames = [], discoveredMolecules = [], transientHeatEnergy = 0,
      heatIntensity = 5, pulseEnergyBoost = 3, reactionInProgress = False,
      lastBondCheck = 0, pending = []\<rparr>"

definition half :: "nat \<Rightarrow> real" where
  "half k = 0.5"

definition startReaction :: "real \<Rightarrow> State \<Rightarrow> State" where
  "startReaction systemEnergy s = s\<lparr>reactionInProgress := True\<rparr>"

definition burnAll :: "real \<Rightarrow> State \<Rightarrow> State" where
  "burnAll systemEnergy s = s\<lparr>transientHeatEnergy := 0\<rparr>"

definition scanReset :: "real \<Rightarrow> real \<Rightarrow> State \<Rightarrow> State" where
  "scanReset now systemEnergy s = s\<lparr>transientHeatEnergy := 0\<rparr>"

definition twoHydrogens :: State where
  "twoHydrogens =
     exampleState\<lparr>atoms := [0, 1],
                  bonds := [\<lparr>bondId = ''0-1'', atomA = 0, atomB = 1\<rparr>]\<rparr>"

definition threeHydrogens :: State where
  "threeHydrogens =
     exampleState\<lparr>atoms := [0, 1, 2],
                  bonds := [\<lparr>bondId = ''0-1'', atomA = 0, atomB = 1\<rparr>]\<rparr>"

definition waterState :: State where
  "waterState =
     exampleState\<lparr>heap := (\<lambda>i. mkAtom i (if i = 0 then 8 else 1)), atoms := [0, 1, 2],
                  bonds := [\<lparr>bondId = ''0-1'', atomA = 0, atomB = 1\<rparr>,
                            \<lparr>bondId = ''0-2'', atomA = 0, atomB = 2\<rparr>]\<rparr>"


text \<open>
  Two hydrogens (atoms 0 and 2) and one oxygen (atom 1), all free, after a heat pulse
  of intensity 10 (transient energy 30).  The hydrogens are 0.9 from each other.  In
  \<open>apart\<close> the oxygen is 6.05 away from each hydrogen, in \<open>near\<close> 5.95.  \<open>placed\<close> gives
  the distances after \<^verbatim>\<open>createOptimalMolecularStructure\<close> has put atoms 1 and 2 at radius
  1.5 on opposite sides of atom 0; the bodies are kinematic and at rest from then on.
  \<open>firstTick\<close> is the state after a frame in which the oxygen is apart, \<open>secondTick\<close>
  the state after the next frame, in which it is near.  \<open>runTimers n\<close> lets the first
  \<open>n\<close> pending callbacks run, oldest first.
\<close>

definition freeWater :: State where
  "freeWater =
     exampleState\<lparr>heap := (\<lambda>i. mkAtom i (if i = 1 then 8 else 1)), atoms := [0, 1, 2],
                  transientHeatEnergy := 30\<rparr>"

definition apart :: "nat \<Rightarrow> nat \<Rightarrow> real" where
  "apart a b = (if a = 1 \<or> b = 1 then 6.05 else 0.9)"

definition near :: "nat \<Rightarrow> nat \<Rightarrow> real" where
  "near a b = (if a = 1 \<or> b = 1 then 5.95 else 0.9)"

definition placed :: "nat \<Rightarrow> nat \<Rightarrow> real" where
  "placed a b = (if a = 0 \<or> b = 0 then 1.5 else 3.0)"

definition bodyDistance :: "nat \<Rightarrow> Molecule \<Rightarrow> real" where
  "bodyDistance a m = 1"

definition firstTick :: State where
  "firstTick = reactionTick startReaction bodyDistance apart freeWater"

definition secondTick :: State where
  "secondTick = reactionTick startReaction bodyDistance near firstTick"

fun runTimers ::
  "nat \<Rightarrow> (nat \<Rightarrow> nat \<Rightarrow> real) \<Rightarrow> State \<Rightarrow> (error \<times> State) + State" where
  "runTimers 0 distance s = Inr s"
| "runTimers (Suc n) distance s =
     (case runPending 0 distance s of
        Inl e \<Rightarrow> Inl e
      | Inr s' \<Rightarrow> runTimers n distance s')"

definition pendingAfter :: "(error \<times> State) + State \<Rightarrow> (real \<times> Deferred) list option" where
  "pendingAfter r = (case r of Inl e \<Rightarrow> None | Inr s \<Rightarrow> Some (pending s))"

definition flagAfter :: "(error \<times> State) + State \<Rightarrow> bool option" where
  "flagAfter r = (case r of Inl e \<Rightarrow> None | Inr s \<Rightarrow> Some (reactionInProgress s))"

definition membersAfter :: "(error \<times> State) + State \<Rightarrow> bool list option" where
  "membersAfter r =
     (case r of Inl e \<Rightarrow> None
      | Inr s \<Rightarrow> Some (map (\<lambda>a. isMoleculeMember (heap s a)) (atoms s)))"

text \<open>What a test reads off the outcome of an operation.\<close>

definition namesAfter :: "(error \<times> State) + State \<Rightarrow> string list option" where
  "namesAfter r = (case r of Inl e \<Rightarrow> None | Inr s \<Rightarrow> Some (map molName (molecules s)))"

definition idsAfter :: "(error \<times> State) + State \<Rightarrow> string list option" where
  "idsAfter r = (case r of Inl e \<Rightarrow> None | Inr s \<Rightarrow> Some (map molId (molecules s)))"

definition bondsAfter :: "(error \<times> State) + State \<Rightarrow> string list option" where
  "bondsAfter r = (case r of Inl e \<Rightarrow> None | Inr s \<Rightarrow> Some (map bondId (bonds s)))"

definition bondCountAfter :: "(error \<times> State) + State \<Rightarrow> nat \<Rightarrow> nat option" where
  "bondCountAfter r a = (case r of Inl e \<Rightarrow> None | Inr s \<Rightarrow> Some (countAtomBonds2 s a))"

definition infoNameOf :: "error + MoleculeInfo \<Rightarrow> string option" where
  "infoNameOf r = (case r of Inl e \<Rightarrow> None | Inr i \<Rightarrow> Some (infoName i))"

definition engineGeometryOf :: "Atom list \<Rightarrow> string option" where
  "engineGeometryOf as =
     (case calculateOptimalBondingStructure as of
        Inl e \<Rightarrow> None
      | Inr st \<Rightarrow> (case determineGeometry as (structBonds st) (structCentralAtom st) of
                     Inl e \<Rightarrow> None | Inr g \<Rightarrow> Some g))"


section \<open>Theorems about the engine\<close>

lemma mkAtom_sel [simp]:
  "atomId (mkAtom i p) = i" "protons (mkAtom i p) = p" "isMoleculeMember (mkAtom i p) = False"
  by (simp_all add: mkAtom_def)

lemma catalog_1: "CHEMICAL_ELEMENTS 1 = Some hydrogenElement"
  by (simp add: CHEMICAL_ELEMENTS_def CHEMICAL_ELEMENTS_table_def hydrogenElement_def)

lemma catalog_Suc_0: "CHEMICAL_ELEMENTS (Suc 0) = Some hydrogenElement"
  using catalog_1 by simp

lemma catalog_8: "CHEMICAL_ELEMENTS 8 = Some oxygenElement"
  by (simp add: CHEMICAL_ELEMENTS_def CHEMICAL_ELEMENTS_table_def oxygenElement_def)

text \<open>
  What \<open>canFormBond\<close> decides for two atoms of the catalog: the activation energy is the
  average ionization energy times \<open>(1 - |electronegativity difference| / 4)\<close> times 0.1,
  floored at 1, and the answer is true exactly when both max-bonds values are positive
  and the system energy is at least that activation energy.  The bonds that the atoms
  already have play no part, because \<open>getCurrentBondCount\<close> is 0.
\<close>

lemma canFormBond_unfold:
  assumes "CHEMICAL_ELEMENTS (protons a) = Some elementA"
    and "CHEMICAL_ELEMENTS (protons b) = Some elementB"
  shows "calculateActivationEnergy a b = Finite (activationEnergy_spec elementA elementB)
    \<and> (canFormBond a b systemEnergy \<longleftrightarrow>
         (maxBonds elementA \<noteq> 0 \<and> maxBonds elementB \<noteq> 0
          \<and> systemEnergy \<ge> activationEnergy_spec elementA elementB))"
proof -
  have act: "calculateActivationEnergy a b
               = Finite (activationEnergy_spec elementA elementB)"
    using assms by (simp add: calculateActivationEnergy_def activationEnergy_spec_def Let_def)
  show ?thesis
    using assms act by (auto simp: canFormBond_def Let_def getCurrentBondCount_def)
qed

text \<open>
  C3 at a failing input.  Three hydrogen atoms 0, 1 and 2 with one bond between 0 and 1.
  Both elements are in the catalog, the activation energy of the pair (0, 2) is 1.36 as
  the formula says, and the system energy 2 reaches it; atom 0 has one bond, which is
  its max-bonds value, so the check "bond count below max" does not pass and the answer
  should be false.  \<open>canFormBond\<close> answers true: the count it compares is the 0 of
  \<open>getCurrentBondCount\<close>.
\<close>

theorem canFormBond_bond_count_failing_input:
  "CHEMICAL_ELEMENTS (protons (heap threeHydrogens 0)) = Some hydrogenElement
   \<and> CHEMICAL_ELEMENTS (protons (heap threeHydrogens 2)) = Some hydrogenElement
   \<and> maxBonds hydrogenElement = 1
   \<and> countAtomBonds2 threeHydrogens 0 = 1
   \<and> getCurrentBondCount (heap threeHydrogens 0) = 0
   \<and> calculateActivationEnergy (heap threeHydrogens 0) (heap threeHydrogens 2) = Finite 1.36
   \<and> activationEnergy_spec hydrogenElement hydrogenElement = 1.36
   \<and> canFormBond (heap threeHydrogens 0) (heap threeHydrogens 2) 2"
  by code_simp

text \<open>
  C10.  \<open>canFormBond\<close> is monotone in the system energy: if it holds at energy \<open>E\<close> it
  holds at every energy \<open>E' \<ge> E\<close>.
\<close>

theorem canFormBond_mono:
  assumes "canFormBond a b E" and "E \<le> E'"
  shows "canFormBond a b E'"
proof -
  from assms(1) obtain elementA elementB where
    ea: "CHEMICAL_ELEMENTS (protons a) = Some elementA" and
    eb: "CHEMICAL_ELEMENTS (protons b) = Some elementB"
    by (auto simp: canFormBond_def split: option.splits)
  have "reaches E (calculateActivationEnergy a b)
        \<Longrightarrow> reaches E' (calculateActivationEnergy a b)"
    using assms(2) by (cases "calculateActivationEnergy a b") auto
  then show ?thesis
    using assms(1) ea eb by (auto simp: canFormBond_def Let_def split: if_splits)
qed

theorem canFormBond_mono_witness:
  "canFormBond (mkAtom 0 1) (mkAtom 1 1) 1.36 \<and> (1.36::real) \<le> 2
   \<and> canFormBond (mkAtom 0 1) (mkAtom 1 1) 2"
proof -
  have a: "canFormBond (mkAtom 0 1) (mkAtom 1 1) 1.36"
    by (simp add: canFormBond_def calculateActivationEnergy_def catalog_Suc_0
          hydrogenElement_def mkElement_def getCurrentBondCount_def)
  have b: "(1.36::real) \<le> 2" by simp
  show ?thesis using a b canFormBond_mono [OF a b] by simp
qed

lemma vseprSwitch_table: "vseprSwitch t l = vsepr_table t l"
  by (simp add: vseprSwitch_def vsepr_table_def vsepr_entries_def)

text \<open>
  C8 as stated fails for a diatomic molecule: for two hydrogen atoms joined by one bond,
  with the first one as central atom, bondsAtCenter is 1, lonePairs is
  \<open>max 0 ((1 - 2) / 2) = 0\<close> and totalPairs is 1, which has no table entry, so the
  claim gives \<open>complex\<close>; \<open>determineGeometry\<close> returns \<open>linear\<close> from its length test.
\<close>

theorem determineGeometry_diatomic_counterexample:
  "determineGeometry [mkAtom 0 1, mkAtom 1 1]
       [the (calculateBondProperties (mkAtom 0 1) (mkAtom 1 1))] (Some (mkAtom 0 1))
     = Inr ''linear''
   \<and> CHEMICAL_ELEMENTS (protons (mkAtom 0 1)) = Some hydrogenElement
   \<and> length (centralBondsOf [the (calculateBondProperties (mkAtom 0 1) (mkAtom 1 1))]
               (mkAtom 0 1)) = 1
   \<and> lonePairsOf hydrogenElement 1 = 0
   \<and> vsepr_table (real 1 + lonePairsOf hydrogenElement 1) (lonePairsOf hydrogenElement 1)
       = ''complex''"
proof -
  have lp: "lonePairsOf hydrogenElement 1 = 0"
    by (simp add: lonePairsOf_def hydrogenElement_def mkElement_def)
  have cb: "length (centralBondsOf [the (calculateBondProperties (mkAtom 0 1) (mkAtom 1 1))]
               (mkAtom 0 1)) = 1"
    by (simp add: centralBondsOf_def calculateBondProperties_def catalog_Suc_0 Let_def)
  have tb: "vsepr_table (real 1 + 0) 0 = ''complex''"
    by (simp add: vsepr_table_def vsepr_entries_def)
  show ?thesis
    using lp cb tb by (simp add: determineGeometry_def catalog_Suc_0)
qed

text \<open>
  C8, amended.  \<open>determineGeometry\<close> returns \<open>atomic\<close> for one atom and \<open>linear\<close> for two
  atoms, whatever the bonds, the central atom and its element.  For every other number
  of atoms, with a central atom (passed in, or chosen by \<open>findOptimalCentralAtom\<close>) whose
  element is in the catalog, it computes
  \<open>lonePairs = max 0 ((valenceElectrons - 2 * bondsAtCenter) / 2)\<close> and
  \<open>totalPairs = bondsAtCenter + lonePairs\<close> and returns the entry of the VSEPR table for
  \<open>(totalPairs, lonePairs)\<close>, or \<open>complex\<close> when there is none.
\<close>

theorem determineGeometry_vsepr:
  "(length component = 1 \<longrightarrow>
      determineGeometry component pairs centralAtom = Inr ''atomic'')
   \<and> (length component = 2 \<longrightarrow>
      determineGeometry component pairs centralAtom = Inr ''linear'')
   \<and> (length component \<noteq> 1 \<and> length component \<noteq> 2
       \<and> resolveCentral component centralAtom = Inr c
       \<and> CHEMICAL_ELEMENTS (protons c) = Some element \<longrightarrow>
      (let bondsAtCenter = length (centralBondsOf pairs c);
           lonePairs = max 0 ((real (valenceElectrons element) - 2 * real bondsAtCenter) / 2);
           totalPairs = real bondsAtCenter + lonePairs
       in determineGeometry component pairs centralAtom
            = Inr (vsepr_table totalPairs lonePairs)))"
  by (simp add: determineGeometry_def Let_def lonePairsOf_def vseprSwitch_table mult.commute)

theorem determineGeometry_vsepr_witness:
  "length [mkAtom 0 99] = 1
   \<and> determineGeometry [mkAtom 0 99] [] None = Inr ''atomic''
   \<and> length [mkAtom 0 99, mkAtom 1 1] = 2
   \<and> determineGeometry [mkAtom 0 99, mkAtom 1 1] [] None = Inr ''linear''
   \<and> length waterAtoms \<noteq> 1 \<and> length waterAtoms \<noteq> 2
   \<and> resolveCentral waterAtoms (Some (mkAtom 0 8)) = Inr (mkAtom 0 8)
   \<and> CHEMICAL_ELEMENTS (protons (mkAtom 0 8)) = Some oxygenElement
   \<and> length (centralBondsOf waterBonds (mkAtom 0 8)) = 2
   \<and> determineGeometry waterAtoms waterBonds (Some (mkAtom 0 8)) = Inr ''bent''"
proof -
  have l1: "length [mkAtom 0 99] = 1" by simp
  have l2: "length [mkAtom 0 99, mkAtom 1 1] = 2" by simp
  have l3: "length waterAtoms \<noteq> 1 \<and> length waterAtoms \<noteq> 2" by (simp add: waterAtoms_def)
  have rc: "resolveCentral waterAtoms (Some (mkAtom 0 8)) = Inr (mkAtom 0 8)"
    by (simp add: resolveCentral_def)
  have el: "CHEMICAL_ELEMENTS (protons (mkAtom 0 8)) = Some oxygenElement"
    by (simp add: catalog_8)
  have bc: "length (centralBondsOf waterBonds (mkAtom 0 8)) = 2"
    by (simp add: centralBondsOf_def waterBonds_def calculateBondProperties_def
        catalog_Suc_0 catalog_8 Let_def)
  have tb: "vsepr_table (real 2 + 1) 1 = ''bent''"
    by (simp add: vsepr_table_def vsepr_entries_def)
  have lp: "max 0 ((real (valenceElectrons oxygenElement) - 2 * real (2::nat)) / 2) = 1"
    by (simp add: oxygenElement_def mkElement_def)
  show ?thesis
    using l1 l2 l3 rc el bc tb lp
      determineGeometry_vsepr [of "[mkAtom 0 99]" "[]" None]
      determineGeometry_vsepr [of "[mkAtom 0 99, mkAtom 1 1]" "[]" None]
      determineGeometry_vsepr [of waterAtoms waterBonds "Some (mkAtom 0 8)" "mkAtom 0 8"
        oxygenElement]
    by (simp add: Let_def)
qed

section \<open>Theorems about the energy model\<close>

lemma applyEnergyOp_nonneg:
  "0 \<le> transientHeatEnergy s \<Longrightarrow> 0 \<le> transientHeatEnergy (applyEnergyOp s op)"
  by (cases op)
     (auto simp: applyGlobalHeatPulse_def animateDecay_def consumeActivationEnergy_def
        deductEnergy_def consumeThirty_def Let_def)

lemma foldl_applyEnergyOp_nonneg:
  "0 \<le> transientHeatEnergy s \<Longrightarrow> 0 \<le> transientHeatEnergy (foldl applyEnergyOp s ops)"
  by (induction ops arbitrary: s) (auto intro: applyEnergyOp_nonneg)

text \<open>
  C5.  Starting from a non-negative \<open>transientHeatEnergy\<close> (it starts at 0), the value is
  non-negative after every operation of any sequence of heat pulses, per-tick decays and
  consumptions: after the first \<open>k\<close> operations, for every \<open>k\<close>.
\<close>

theorem transientHeatEnergy_nonneg:
  assumes "0 \<le> transientHeatEnergy s"
  shows "0 \<le> transientHeatEnergy (foldl applyEnergyOp s (take k ops))"
  using assms by (rule foldl_applyEnergyOp_nonneg)

theorem transientHeatEnergy_nonneg_witness:
  "0 \<le> transientHeatEnergy exampleState
   \<and> transientHeatEnergy (foldl applyEnergyOp exampleState
        (take 2 [HeatPulse half, Decay, Deduct 100, ConsumeActivation 0 1])) = 14.4
   \<and> transientHeatEnergy (foldl applyEnergyOp exampleState
        (take 3 [HeatPulse half, Decay, Deduct 100, ConsumeActivation 0 1])) = 0"
proof -
  have h: "0 \<le> transientHeatEnergy exampleState"
    by (simp add: exampleState_def)
  have e2: "transientHeatEnergy (foldl applyEnergyOp exampleState
        (take 2 [HeatPulse half, Decay, Deduct 100, ConsumeActivation 0 1])) = 14.4"
    by (simp add: exampleState_def applyGlobalHeatPulse_def animateDecay_def Let_def)
  have e3: "transientHeatEnergy (foldl applyEnergyOp exampleState
        (take 3 [HeatPulse half, Decay, Deduct 100, ConsumeActivation 0 1])) = 0"
    by (simp add: exampleState_def applyGlobalHeatPulse_def animateDecay_def deductEnergy_def
          Let_def)
  show ?thesis
    using h e2 e3
      transientHeatEnergy_nonneg [OF h, of 2 "[HeatPulse half, Decay, Deduct 100, ConsumeActivation 0 1]"]
    by simp
qed

text \<open>
  C6 as stated fails for the heat pulse.  With \<open>heatIntensity = 5\<close> and
  \<open>pulseEnergyBoost = 3\<close> a pulse brings 15: from 0 it yields 15, from 10 it yields 15
  again (not 25), and from 20 it leaves 20 (so 15 is not a cap either).  No amount and no
  maximum make these three results \<open>min maximum (old + amount)\<close>.
\<close>

theorem applyGlobalHeatPulse_counterexample:
  "transientHeatEnergy (applyGlobalHeatPulse half (exampleState\<lparr>transientHeatEnergy := 0\<rparr>)) = 15
   \<and> transientHeatEnergy (applyGlobalHeatPulse half (exampleState\<lparr>transientHeatEnergy := 10\<rparr>)) = 15
   \<and> transientHeatEnergy (applyGlobalHeatPulse half (exampleState\<lparr>transientHeatEnergy := 20\<rparr>)) = 20"
  by (simp add: applyGlobalHeatPulse_def exampleState_def Let_def)

text \<open>
  C6, amended.  The heat pulse of \<^verbatim>\<open>simulation.component.ts\<close> raises
  \<open>transientHeatEnergy\<close> to at least \<open>max 0 heatIntensity * pulseEnergyBoost\<close>: the new
  value is the maximum of the old value and that product, for every old value; nothing
  is added and there is no configured maximum.  The additive, capped update is
  \<^verbatim>\<open>addSystemEnergy(amount)\<close> of the second component: the new value is the minimum of 100
  and the old value plus the amount, for every old value and every amount.
\<close>

theorem heat_update:
  "transientHeatEnergy (applyGlobalHeatPulse rnd s)
     = max (transientHeatEnergy s) (max 0 (heatIntensity s) * pulseEnergyBoost s)
   \<and> transientHeatEnergy (addSystemEnergy2 rnd amount s)
     = min 100 (transientHeatEnergy s + amount)"
  by (simp add: applyGlobalHeatPulse_def addSystemEnergy2_def Let_def)

section \<open>Theorems about the reaction lock\<close>

text \<open>
  The guards.  While \<open>reactionInProgress\<close> is set, the per-tick bond scan and the
  reaction attempt return the state unchanged, whatever the scan and the searches would
  do; within a tick the searches run in order and every later search is skipped once an
  earlier one has set the flag.
\<close>

lemma reaction_guards:
  "(reactionInProgress s \<longrightarrow>
      checkAndCreateBonds scan now s = s
      \<and> attemptMolecularReactions moleculeMolecule atomMolecule multiAtom s = s)
   \<and> (reactionInProgress (moleculeMolecule e s) \<longrightarrow>
        attemptComplexMolecularFormation moleculeMolecule atomMolecule multiAtom e s
          = moleculeMolecule e s)
   \<and> (\<not> reactionInProgress (moleculeMolecule e s)
        \<and> reactionInProgress (atomMolecule e (moleculeMolecule e s)) \<longrightarrow>
        attemptComplexMolecularFormation moleculeMolecule atomMolecule multiAtom e s
          = atomMolecule e (moleculeMolecule e s))"
  by (simp add: checkAndCreateBonds_def attemptMolecularReactions_def
        attemptComplexMolecularFormation_def Let_def)

lemma reaction_guards_example:
  "reactionInProgress (exampleState\<lparr>transientHeatEnergy := 30, reactionInProgress := True\<rparr>)
   \<and> checkAndCreateBonds scanReset 1000
        (exampleState\<lparr>transientHeatEnergy := 30, reactionInProgress := True\<rparr>)
       = exampleState\<lparr>transientHeatEnergy := 30, reactionInProgress := True\<rparr>
   \<and> attemptMolecularReactions startReaction burnAll burnAll
        (exampleState\<lparr>transientHeatEnergy := 30, reactionInProgress := True\<rparr>)
       = exampleState\<lparr>transientHeatEnergy := 30, reactionInProgress := True\<rparr>
   \<and> checkAndCreateBonds scanReset 1000 (exampleState\<lparr>transientHeatEnergy := 30\<rparr>)
       \<noteq> exampleState\<lparr>transientHeatEnergy := 30\<rparr>
   \<and> reactionInProgress (startReaction 30 (exampleState\<lparr>transientHeatEnergy := 30\<rparr>))
   \<and> attemptComplexMolecularFormation startReaction burnAll burnAll 30
        (exampleState\<lparr>transientHeatEnergy := 30\<rparr>)
       = startReaction 30 (exampleState\<lparr>transientHeatEnergy := 30\<rparr>)"
proof -
  let ?held = "exampleState\<lparr>transientHeatEnergy := 30, reactionInProgress := True\<rparr>"
  let ?free = "exampleState\<lparr>transientHeatEnergy := 30\<rparr>"
  have a: "reactionInProgress ?held" by simp
  have b: "reactionInProgress (startReaction 30 ?free)" by (simp add: startReaction_def)
  have c: "checkAndCreateBonds scanReset 1000 ?free \<noteq> ?free"
  proof
    assume "checkAndCreateBonds scanReset 1000 ?free = ?free"
    then have "transientHeatEnergy (checkAndCreateBonds scanReset 1000 ?free)
                 = transientHeatEnergy ?free" by simp
    then show False
      by (simp add: checkAndCreateBonds_def scanReset_def exampleState_def
            bondCheckInterval_def Let_def)
  qed
  show ?thesis
    using a b c
      reaction_guards [of ?held scanReset 1000 startReaction burnAll burnAll 30]
      reaction_guards [of ?free scanReset 1000 startReaction burnAll burnAll 30]
    by simp
qed

text \<open>
  The two branches of \<open>attemptMultiAtomCombinations\<close>.  A combination of two atoms
  leaves the flag as it was and defers an identification by 100 ms; a combination of
  three atoms sets the flag and defers its bonding by 100 ms.
\<close>

lemma createBond_suppressed:
  "\<exists>s'. createBond a b True s = Inr s'
        \<and> reactionInProgress s' = reactionInProgress s \<and> pending s' = pending s"
  by (simp add: createBond_def Let_def)

lemma two_atoms_keep_flag:
  assumes "searchCombination distance (heap s) e (freeAtomsOf s) = Some (TwoAtoms a b)"
  shows "reactionInProgress (attemptMultiAtomCombinations distance e s) = reactionInProgress s
         \<and> pending (attemptMultiAtomCombinations distance e s)
             = pending s @ [(100, IdentifyMolecules)]"
  using assms
  by (simp add: attemptMultiAtomCombinations_def stateOf_def createBond_def Let_def)

lemma three_atoms_take_flag:
  assumes "searchCombination distance (heap s) e (freeAtomsOf s) = Some (ThreeAtoms a b c)"
  shows "reactionInProgress (attemptMultiAtomCombinations distance e s)
         \<and> pending (attemptMultiAtomCombinations distance e s)
             = pending s @ [(100, StructureBonds [a, b, c])]"
  using assms
  by (simp add: attemptMultiAtomCombinations_def stateOf_def
        createOptimalMolecularStructure_def Let_def)

text \<open>
  C9 at a failing input.  Two hydrogens (atoms 0 and 2) and an oxygen (atom 1) are free,
  no reaction is in progress and no callback is pending.  In the first frame the oxygen
  is 6.05 from the hydrogens: \<open>attemptMolecularReactions\<close> combines the two hydrogens (bond
  \<open>0-2\<close>) and defers their identification, once from \<open>attemptAtomMoleculeCombinations\<close>
  and once more from \<open>attemptComplexMolecularFormation\<close>, without setting
  \<open>reactionInProgress\<close>.  In the next frame the oxygen is 5.95 away: the flag is clear, so
  the attempt is not rejected, the three atoms are taken by
  \<open>createOptimalMolecularStructure\<close>, and the flag is set while the identifications of the
  first combination are still pending: two reactions are in flight.  The first
  identification then runs while the flag is set (it was scheduled one frame before
  the bonding callback, with the same delay; the bond \<open>0-2\<close> is 1.5 long after the
  placement, below the length 2.22 at which \<open>updateBondVisuals\<close> would remove it): it makes atoms 0 and 2 a
  molecule \<open>0-2\<close>, marks them as members and deletes their bond, in the middle of the
  three-atom reaction.  After the remaining callbacks the flag is clear, the only
  molecule is the dihydrogen, and the oxygen is still free.
\<close>

theorem reaction_lock_failing_input:
  "\<not> reactionInProgress freeWater
   \<and> pending freeWater = []
   \<and> \<not> reactionInProgress firstTick
   \<and> bondsAfter (Inr firstTick) = Some [''0-2'']
   \<and> pending firstTick = [(100, IdentifyMolecules), (100, IdentifyMolecules)]
   \<and> reactionInProgress secondTick
   \<and> pending secondTick
       = [(100, IdentifyMolecules), (100, IdentifyMolecules), (100, StructureBonds [0, 1, 2])]
   \<and> bondsAfter (Inr secondTick) = Some [''0-2'']
   \<and> idsAfter (Inr secondTick) = Some []
   \<and> membersAfter (Inr secondTick) = Some [False, False, False]
   \<and> flagAfter (runTimers 1 placed secondTick) = Some True
   \<and> idsAfter (runTimers 1 placed secondTick) = Some [''0-2'']
   \<and> membersAfter (runTimers 1 placed secondTick) = Some [True, False, True]
   \<and> bondsAfter (runTimers 1 placed secondTick) = Some []
   \<and> flagAfter (runTimers 4 placed secondTick) = Some False
   \<and> pendingAfter (runTimers 4 placed secondTick) = Some []
   \<and> namesAfter (runTimers 4 placed secondTick) = Some [''dihydrogen (H'' @ sub2 @ '')'']
   \<and> membersAfter (runTimers 4 placed secondTick) = Some [True, False, True]"
  by code_simp

section \<open>Theorems about bonds\<close>

lemma bondExists_commute: "bondExists s b a = bondExists s a b"
  by (auto simp: bondExists_def list_ex_iff)

text \<open>
  C4.  A request for a pair that already has a bond record, in either orientation of
  the id, returns the state unchanged, with or without \<open>suppressIdentify\<close>.  So after a
  first request has created the record of a pair that had none, there is exactly one
  record for the pair, and a second request in either orientation changes nothing.
\<close>

theorem createBond_duplicate_noop:
  "(bondExists s a b \<longrightarrow>
      createBond a b suppressIdentify s = Inr s
      \<and> createBond b a suppressIdentify s = Inr s)
   \<and> (\<not> bondExists s a b \<longrightarrow>
        (let s1 = s\<lparr>bonds := bonds s @ [\<lparr>bondId = bondIdOf (heap s) a b,
                                          atomA = a, atomB = b\<rparr>]\<rparr>
         in createBond a b True s = Inr s1
            \<and> length (pairRecords s1 a b) = 1
            \<and> createBond a b suppressIdentify s1 = Inr s1
            \<and> createBond b a suppressIdentify s1 = Inr s1))"
proof -
  have dup: "bondExists t x y \<Longrightarrow> createBond x y f t = Inr t" for t x y f
    by (simp add: createBond_def)
  have p1: "bondExists s a b \<longrightarrow>
      createBond a b suppressIdentify s = Inr s \<and> createBond b a suppressIdentify s = Inr s"
    using dup bondExists_commute by blast
  let ?s1 = "s\<lparr>bonds := bonds s @ [\<lparr>bondId = bondIdOf (heap s) a b, atomA = a, atomB = b\<rparr>]\<rparr>"
  have ex1: "bondExists ?s1 a b"
    by (simp add: bondExists_def)
  have p2: "\<not> bondExists s a b \<Longrightarrow> createBond a b True s = Inr ?s1"
    by (simp add: createBond_def)
  have p3: "\<not> bondExists s a b \<Longrightarrow> length (pairRecords ?s1 a b) = 1"
    by (simp add: bondExists_def pairRecords_def list_ex_iff filter_empty_conv)
  show ?thesis
    using p1 p2 p3 dup [OF ex1] dup [of ?s1 b a] ex1 bondExists_commute [of ?s1 b a]
    by (simp add: Let_def)
qed

theorem createBond_duplicate_noop_witness:
  "bondExists threeHydrogens 1 0
   \<and> createBond 1 0 False threeHydrogens = Inr threeHydrogens
   \<and> createBond 0 1 True threeHydrogens = Inr threeHydrogens
   \<and> \<not> bondExists threeHydrogens 0 2
   \<and> bondsAfter (createBond 0 2 True threeHydrogens) = Some [''0-1'', ''0-2'']
   \<and> bondsAfter (createBond 2 0 True
        (threeHydrogens\<lparr>bonds := bonds threeHydrogens
            @ [\<lparr>bondId = bondIdOf (heap threeHydrogens) 0 2, atomA = 0, atomB = 2\<rparr>]\<rparr>))
       = Some [''0-1'', ''0-2'']"
proof -
  have e: "bondExists threeHydrogens 1 0" by code_simp
  have n: "\<not> bondExists threeHydrogens 0 2" by code_simp
  have b: "bondsAfter (Inr (threeHydrogens\<lparr>bonds := bonds threeHydrogens
            @ [\<lparr>bondId = bondIdOf (heap threeHydrogens) 0 2, atomA = 0, atomB = 2\<rparr>]\<rparr>))
          = Some [''0-1'', ''0-2'']" by code_simp
  show ?thesis
    using e n b
      createBond_duplicate_noop [of threeHydrogens 1 0 False]
      createBond_duplicate_noop [of threeHydrogens 1 0 True]
      createBond_duplicate_noop [of threeHydrogens 0 2 True]
    by (simp add: Let_def)
qed

text \<open>
  C1 at a failing input.  Three hydrogen atoms 0, 1 and 2, with one bond between 0 and
  1: atom 0 is at its max-bonds value 1.  \<open>canFormBond\<close> still accepts the pair (0, 2)
  at system energy 2, because \<open>getCurrentBondCount\<close> returns 0, and \<open>createBond\<close>, as the
  gradual-bonding callback and the reaction paths call it, adds the bond: atom 0 then has
  two bonds.  With the energy check switched on (\<open>suppressIdentify\<close> false) and
  \<open>transientHeatEnergy = 5\<close> the bond is created as well, and the three atoms are then
  identified as one molecule.
\<close>

theorem valence_exceeded_failing_input:
  "countAtomBonds2 threeHydrogens 0 = 1
   \<and> map_option maxBonds (CHEMICAL_ELEMENTS (protons (heap threeHydrogens 0))) = Some 1
   \<and> canFormBond (heap threeHydrogens 0) (heap threeHydrogens 2) 2
   \<and> bondsAfter (createBond 0 2 True threeHydrogens) = Some [''0-1'', ''0-2'']
   \<and> bondCountAfter (createBond 0 2 True threeHydrogens) 0 = Some 2
   \<and> idsAfter (createBond 0 2 False (threeHydrogens\<lparr>transientHeatEnergy := 5\<rparr>))
       = Some [''0-1-2'']"
  by code_simp

section \<open>Theorems about molecule identification\<close>

text \<open>
  C2 at a failing input.  Two hydrogen atoms joined by one bond: \<open>identifyMolecules\<close>
  reports one molecule, named \<open>dihydrogen (H2)\<close> (with a subscript 2) by
  \<open>generateSystematicName\<close>, not \<open>Hydrogen Gas (H2)\<close>; the table of
  \<open>identifyMoleculeType\<close>, which has that name for the same two atoms, is not consulted.
  One oxygen bonded to two hydrogens is reported as \<open>dihydrogen oxygen (H2O)\<close>, and the
  geometry computed for it is \<open>complex\<close>, not \<open>bent\<close>.
\<close>

theorem identifyMolecules_names_failing_input:
  "namesAfter (identifyMolecules twoHydrogens) = Some [''dihydrogen (H'' @ sub2 @ '')'']
   \<and> infoNameOf (identifyMoleculeType (map (heap twoHydrogens) [0, 1]))
       = Some (''Hydrogen Gas (H'' @ sub2 @ '')'')
   \<and> namesAfter (identifyMolecules waterState)
       = Some [''dihydrogen oxygen (H'' @ sub2 @ ''O)'']
   \<and> infoNameOf (identifyMoleculeType (map (heap waterState) [0, 1, 2]))
       = Some (''Water (H'' @ sub2 @ ''O)'')
   \<and> engineGeometryOf (map (heap waterState) [0, 1, 2]) = Some ''complex''"
  by code_simp



















end
